theory Spec2Isabelle
  imports Complex_Main
begin

section \<open>Persisted records\<close>

text \<open>The status of an Execution row, as the Store's schema declares it.\<close>

datatype executionStatus = PENDING | RUNNING | SUCCESS | FAILED | SKIPPED

section \<open>Rule program executor: component results\<close>

text \<open>
  The executor (\<^verbatim>\<open>src/engine/executor.ts\<close>) walks a rule's component tree and records
  one \<^verbatim>\<open>ComponentResult\<close> per executed component.  The result payload and the duration
  of a \<^verbatim>\<open>ComponentResult\<close> are left out of the model: the executor only copies them.
\<close>

datatype resultStatus = success | failed | skipped

datatype componentResult = ComponentResult
  (componentId: string)
  (componentType: string)
  (actionType: "string option")
  (status: resultStatus)
  (error: "string option")
  (children: "componentResult list option")

text \<open>
  \<^verbatim>\<open>hasFailure(results)\<close>: \<^verbatim>\<open>results.some(r => r.status === 'failed' ? true :
  r.children ? this.hasFailure(r.children) : false)\<close>.  An empty \<^verbatim>\<open>children\<close> array is
  truthy in JavaScript, so the recursion is entered for it and yields false.
\<close>

fun hasFailure :: "componentResult list \<Rightarrow> bool" where
  "hasFailure [] = False"
| "hasFailure (ComponentResult i t a s e ch # rs) =
     ((if s = failed then True
       else (case ch of Some cs \<Rightarrow> hasFailure cs | None \<Rightarrow> False))
      \<or> hasFailure rs)"



section \<open>Rule program executor: the component walk\<close>

text \<open>
  \<^verbatim>\<open>RuleComponent\<close>, \<^verbatim>\<open>BranchConfig\<close> and \<^verbatim>\<open>IfElseConfig\<close> as the source declares
  them: a component carries an identifier, a \<^verbatim>\<open>componentType\<close> tag and four optional
  payloads.  The action's type-specific \<^verbatim>\<open>config\<close> (\<open>'a\<close>) and the condition tree
  (\<open>'c\<close>) are interpreted by the action runner and the condition evaluator, which the
  walk reaches through \<open>services\<close> below.
\<close>

record 'a actionConfig =
  action_type :: string
  action_name :: "string option"
  continueOnError :: "bool option"
  config :: 'a

datatype ('a, 'c) ruleComponent = RuleComponent
    (comp_id: string)
    (comp_type: string)
    (action: "'a actionConfig option")
    (condition: "'c option")
    (branch: "('a, 'c) branchConfig option")
    (ifElse: "('a, 'c) ifElseConfig option")
and ('a, 'c) branchConfig = BranchConfig
    (branch_type: string)
    (direction: "string option")
    (referenceKind: "string option")
    (catalogId: "string option")
    (oqlQuery: "string option")
    (components: "('a, 'c) ruleComponent list")
and ('a, 'c) ifElseConfig = IfElseConfig
    (conditions: "'c option")
    (then_components: "('a, 'c) ruleComponent list")
    (else_components: "('a, 'c) ruleComponent list option")

text \<open>
  The per-run \<^verbatim>\<open>ExecutionContext\<close>.  Its fields \<^verbatim>\<open>currentItem\<close> and
  \<^verbatim>\<open>componentResults\<close> belong to one context object (a branch iteration gets a copy
  with both replaced); \<^verbatim>\<open>trigger\<close>, \<^verbatim>\<open>variables\<close> and \<^verbatim>\<open>createdItems\<close> are objects
  shared by reference between a context and its copies, so they live, with the upstream
  service, in the world state \<open>'w\<close> that every call threads through.
\<close>

record 'i executionContext =
  currentItem :: "'i option"
  componentResults :: "componentResult list"

record actionResult =
  ar_status :: resultStatus
  ar_error :: "string option"

text \<open>
  What the walk calls: \<^verbatim>\<open>ActionRunner.executeOne\<close> (which may replace
  \<^verbatim>\<open>ctx.currentItem\<close>, as \<^verbatim>\<open>refetch_data\<close> does), \<^verbatim>\<open>ConditionEvaluator.evaluate\<close>
  (which catches its own exceptions and answers \<^verbatim>\<open>passed\<close>), and the item lookups of
  the three branch kinds.  A thrown exception is \<open>Inl\<close> of its message.
\<close>

record ('a, 'c, 'i, 'w) services =
  executeOne :: "'a actionConfig \<Rightarrow> 'i executionContext \<Rightarrow> 'w
                  \<Rightarrow> (string + actionResult) \<times> 'i option \<times> 'w"
  evaluate :: "'c \<Rightarrow> 'i executionContext \<Rightarrow> 'w \<Rightarrow> bool \<times> 'w"
  triggerItem :: "'w \<Rightarrow> 'i option"
  createdItems :: "'w \<Rightarrow> 'i list"
  relatedItems :: "string option \<Rightarrow> string option \<Rightarrow> string option \<Rightarrow> 'i \<Rightarrow> 'w
                  \<Rightarrow> (string + 'i list) \<times> 'w"
  lookupItems :: "string \<Rightarrow> 'i executionContext \<Rightarrow> 'w \<Rightarrow> (string + 'i list) \<times> 'w"

definition failedResult :: "string \<Rightarrow> string \<Rightarrow> string \<Rightarrow> componentResult" where
  "failedResult cid ctype msg = ComponentResult cid ctype None failed (Some msg) None"

text \<open>
  \<^verbatim>\<open>executeActionComponent\<close> and \<^verbatim>\<open>executeConditionComponent\<close>.  A payload that is
  missing makes the source read a property of \<^verbatim>\<open>undefined\<close>, which throws a TypeError
  (\<open>Inl\<close>); \<^verbatim>\<open>evaluate\<close> answers \<^verbatim>\<open>passed: true\<close> for a missing condition.
\<close>

definition executeActionComponent ::
    "('a, 'c, 'i, 'w) services \<Rightarrow> ('a, 'c) ruleComponent \<Rightarrow> 'i executionContext \<Rightarrow> 'w
      \<Rightarrow> (string + componentResult) \<times> 'i executionContext \<times> 'w" where
  "executeActionComponent sv cmpt ctx w =
     (case action cmpt of
        None \<Rightarrow> (Inl ''Cannot read properties of undefined'', ctx, w)
      | Some ac \<Rightarrow>
          (case executeOne sv ac ctx w of
             (Inl msg, cur, w1) \<Rightarrow> (Inl msg, ctx\<lparr>currentItem := cur\<rparr>, w1)
           | (Inr r, cur, w1) \<Rightarrow>
               (Inr (ComponentResult (comp_id cmpt) ''action'' (Some (action_type ac))
                       (ar_status r) (ar_error r) None),
                ctx\<lparr>currentItem := cur\<rparr>, w1)))"

definition executeConditionComponent ::
    "('a, 'c, 'i, 'w) services \<Rightarrow> ('a, 'c) ruleComponent \<Rightarrow> 'i executionContext \<Rightarrow> 'w
      \<Rightarrow> (string + componentResult) \<times> 'i executionContext \<times> 'w" where
  "executeConditionComponent sv cmpt ctx w =
     (case (case condition cmpt of None \<Rightarrow> (True, w) | Some c \<Rightarrow> evaluate sv c ctx w) of
        (passed, w1) \<Rightarrow>
          (Inr (ComponentResult (comp_id cmpt) ''condition'' None
                  (if passed then success else skipped) None None),
           ctx, w1))"

text \<open>
  The first half of \<^verbatim>\<open>executeBranchComponent\<close>: the \<^verbatim>\<open>switch\<close> on the branch type
  that finds the items to iterate, or returns a result at once.  A branch type outside
  the three cases leaves \<^verbatim>\<open>items\<close> empty.
\<close>

datatype 'i branchTarget = BranchReturn componentResult | BranchItems "'i list"

definition resolveBranchItems ::
    "('a, 'c, 'i, 'w) services \<Rightarrow> string \<Rightarrow> ('a, 'c) branchConfig \<Rightarrow> 'i executionContext \<Rightarrow> 'w
      \<Rightarrow> (string + 'i branchTarget) \<times> 'w" where
  "resolveBranchItems sv cid br ctx w =
     (if branch_type br = ''related_items'' then
        (case (case currentItem ctx of Some it \<Rightarrow> Some it | None \<Rightarrow> triggerItem sv w) of
           None \<Rightarrow>
             (Inr (BranchReturn (ComponentResult cid ''branch'' None skipped
                     (Some ''No source item for related_items branch'') None)), w)
         | Some sourceItem \<Rightarrow>
             (case relatedItems sv (direction br) (referenceKind br) (catalogId br) sourceItem w of
                (Inl msg, w1) \<Rightarrow> (Inl msg, w1)
              | (Inr items, w1) \<Rightarrow> (Inr (BranchItems items), w1)))
      else if branch_type br = ''created_items'' then
        (Inr (BranchItems (createdItems sv w)), w)
      else if branch_type br = ''lookup_items'' then
        (if oqlQuery br = None \<or> oqlQuery br = Some [] then
           (Inr (BranchReturn (ComponentResult cid ''branch'' None failed
                   (Some ''lookup_items branch requires oqlQuery'') None)), w)
         else
           (case lookupItems sv (the (oqlQuery br)) ctx w of
              (Inl msg, w1) \<Rightarrow> (Inl msg, w1)
            | (Inr items, w1) \<Rightarrow> (Inr (BranchItems items), w1)))
      else (Inr (BranchItems []), w))"

definition parentResult :: "string \<Rightarrow> string \<Rightarrow> componentResult list \<Rightarrow> componentResult" where
  "parentResult cid ctype childResults =
     ComponentResult cid ctype None (if hasFailure childResults then failed else success)
       None (Some childResults)"

text \<open>
  The end of the loop body of \<^verbatim>\<open>executeComponents\<close>: the \<^verbatim>\<open>catch\<close> that turns an
  exception of the \<^verbatim>\<open>switch\<close> into a failed result, and the two tests that
  \<^verbatim>\<open>break\<close> the loop (a skipped condition; a failed action whose
  \<^verbatim>\<open>continueOnError ?? false\<close> is false).
\<close>

definition catchResult :: "('a, 'c) ruleComponent \<Rightarrow> string + componentResult \<Rightarrow> componentResult" where
  "catchResult cmpt outcome =
     (case outcome of
        Inr r \<Rightarrow> r
      | Inl msg \<Rightarrow> failedResult (comp_id cmpt) (comp_type cmpt) msg)"

definition stopsChain :: "('a, 'c) ruleComponent \<Rightarrow> componentResult \<Rightarrow> bool" where
  "stopsChain cmpt result =
     (if comp_type cmpt = ''condition'' \<and> status result = skipped then True
      else if comp_type cmpt = ''action'' \<and> status result = failed then
        \<not> (case action cmpt of
             Some ac \<Rightarrow> (case continueOnError ac of Some b \<Rightarrow> b | None \<Rightarrow> False)
           | None \<Rightarrow> False)
      else False)"

text \<open>
  \<^verbatim>\<open>executeComponents\<close>, \<^verbatim>\<open>executeBranchComponent\<close> and \<^verbatim>\<open>executeIfElseComponent\<close>.
  \<open>executeComponent\<close> is the body of the loop's \<^verbatim>\<open>try\<close>: the \<^verbatim>\<open>switch\<close> on the
  component type, and the \<^verbatim>\<open>catch\<close> that turns an exception into a failed result.
  \<open>executeBranchItems\<close> is the loop of \<^verbatim>\<open>executeBranchComponent\<close> over the items:
  each item runs the branch's components in a copy of the context with \<^verbatim>\<open>currentItem\<close>
  set and an empty \<^verbatim>\<open>componentResults\<close>.  (The merge of the copy's \<^verbatim>\<open>createdItems\<close>
  into the parent's filters an array against itself, both being the same object, and
  adds nothing.)
\<close>

fun executeComponents ::
    "('a, 'c, 'i, 'w) services \<Rightarrow> ('a, 'c) ruleComponent list \<Rightarrow> 'i executionContext \<Rightarrow> 'w
      \<Rightarrow> componentResult list \<times> 'i executionContext \<times> 'w"
and executeComponent ::
    "('a, 'c, 'i, 'w) services \<Rightarrow> ('a, 'c) ruleComponent \<Rightarrow> 'i executionContext \<Rightarrow> 'w
      \<Rightarrow> (string + componentResult) \<times> 'i executionContext \<times> 'w"
and executeBranchItems ::
    "('a, 'c, 'i, 'w) services \<Rightarrow> ('a, 'c) ruleComponent list \<Rightarrow> 'i executionContext
      \<Rightarrow> 'i list \<Rightarrow> 'w \<Rightarrow> componentResult list \<times> 'w"
where
  "executeComponents sv [] ctx w = ([], ctx, w)"
| "executeComponents sv (cmpt # rest) ctx w =
     (case executeComponent sv cmpt ctx w of (outcome, ctx1, w1) \<Rightarrow>
        (let result = catchResult cmpt outcome;
             ctx2 = ctx1\<lparr>componentResults := componentResults ctx1 @ [result]\<rparr>
         in
           if stopsChain cmpt result then ([result], ctx2, w1)
           else (case executeComponents sv rest ctx2 w1 of (results, ctx3, w3) \<Rightarrow>
                   (result # results, ctx3, w3))))"
| "executeComponent sv (RuleComponent cid ctype act cond br ie) ctx w =
     (if ctype = ''action'' then
        executeActionComponent sv (RuleComponent cid ctype act cond br ie) ctx w
      else if ctype = ''condition'' then
        executeConditionComponent sv (RuleComponent cid ctype act cond br ie) ctx w
      else if ctype = ''branch'' then
        (case br of
           None \<Rightarrow> (Inl ''Cannot read properties of undefined'', ctx, w)
         | Some (BranchConfig btype dir kind cat oql comps) \<Rightarrow>
             (case resolveBranchItems sv cid (BranchConfig btype dir kind cat oql comps) ctx w of
                (Inl msg, w1) \<Rightarrow> (Inl msg, ctx, w1)
              | (Inr (BranchReturn r), w1) \<Rightarrow> (Inr r, ctx, w1)
              | (Inr (BranchItems items), w1) \<Rightarrow>
                  (case executeBranchItems sv comps ctx items w1 of
                     (childResults, w2) \<Rightarrow>
                       (Inr (parentResult cid ''branch'' childResults), ctx, w2))))
      else if ctype = ''if_else'' then
        (case ie of
           None \<Rightarrow> (Inl ''Cannot read properties of undefined'', ctx, w)
         | Some (IfElseConfig conds thn els) \<Rightarrow>
             (case (case conds of None \<Rightarrow> (True, w) | Some cnd \<Rightarrow> evaluate sv cnd ctx w) of
                (passed, w1) \<Rightarrow>
                  (if passed then
                     (case executeComponents sv thn ctx w1 of
                        (childResults, ctx2, w2) \<Rightarrow>
                          (Inr (parentResult cid ''if_else'' childResults), ctx2, w2))
                   else
                     (case els of
                        Some (e # es) \<Rightarrow>
                          (case executeComponents sv (e # es) ctx w1 of
                             (childResults, ctx2, w2) \<Rightarrow>
                               (Inr (parentResult cid ''if_else'' childResults), ctx2, w2))
                      | _ \<Rightarrow> (Inr (parentResult cid ''if_else'' []), ctx, w1)))))
      else
        (Inr (failedResult cid ctype (''Unknown component type: '' @ ctype)), ctx, w))"
| "executeBranchItems sv comps ctx [] w = ([], w)"
| "executeBranchItems sv comps ctx (item # items) w =
     (case executeComponents sv comps
             (ctx\<lparr>currentItem := Some item, componentResults := []\<rparr>) w of
        (iterResults, branchCtx, w1) \<Rightarrow>
          (case executeBranchItems sv comps ctx items w1 of (restResults, w2) \<Rightarrow>
             (iterResults @ restResults, w2)))"

section \<open>Rule program executor: finishing a run\<close>



section \<open>Rule program executor: auxiliary predicates\<close>



text \<open>
  The walk over \<open>pre\<close> ran to the end of the list: it produced one result per component
  and its last result did not break the loop, so the loop goes on to the next sibling.
\<close>

definition ranToEnd :: "('a, 'c) ruleComponent list \<Rightarrow> componentResult list \<Rightarrow> bool" where
  "ranToEnd pre rs =
     (length rs = length pre \<and> (pre = [] \<or> (rs \<noteq> [] \<and> \<not> stopsChain (last pre) (last rs))))"

section \<open>Rule program executor: a concrete run\<close>

text \<open>
  Services for concrete runs of the walk: every action fails with the message
  \<^verbatim>\<open>boom\<close>, a condition is its own truth value, no branch finds an item, and the world
  state counts the service calls.
\<close>

definition exampleServices :: "(unit, bool, unit, nat) services" where
  "exampleServices =
     \<lparr>executeOne = (\<lambda>ac ctx w.
        (Inr \<lparr>ar_status = failed, ar_error = Some ''boom''\<rparr>, currentItem ctx, Suc w)),
      evaluate = (\<lambda>c ctx w. (c, Suc w)),
      triggerItem = (\<lambda>w. None),
      createdItems = (\<lambda>w. []),
      relatedItems = (\<lambda>d k c i w. (Inr [], w)),
      lookupItems = (\<lambda>q ctx w. (Inr [], w))\<rparr>"

definition conditionComponent :: "string \<Rightarrow> bool \<Rightarrow> (unit, bool) ruleComponent" where
  "conditionComponent cid b = RuleComponent cid ''condition'' None (Some b) None None"

definition actionComponent :: "string \<Rightarrow> bool option \<Rightarrow> (unit, bool) ruleComponent" where
  "actionComponent cid flag =
     RuleComponent cid ''action''
       (Some \<lparr>action_type = ''log'', action_name = None, continueOnError = flag, config = ()\<rparr>)
       None None None"

section \<open>Rule program executor: the concurrency gate\<close>

text \<open>
  \<^verbatim>\<open>AutomationExecutor\<close> keeps a counter \<^verbatim>\<open>activeExecutions\<close> and an array
  \<^verbatim>\<open>executionQueue\<close>.  JavaScript runs each synchronous stretch of code to its end, so
  the executor is modelled as a machine whose steps are those stretches:
  \<^item> a call of \<^verbatim>\<open>executeAutomation\<close>, up to the first \<^verbatim>\<open>await\<close> of \<^verbatim>\<open>runExecution\<close>
    (the counter is incremented and the Execution row is requested) or to the
    \<^verbatim>\<open>push\<close> on the queue;
  \<^item> the end of a run, from the return of the last \<^verbatim>\<open>execution.update\<close>: the counter
    is decremented and \<^verbatim>\<open>drainQueue\<close> starts queued runs;
  \<^item> a run whose last Store call throws inside the \<^verbatim>\<open>catch\<close> block: its promise
    rejects before the decrement, and the row stays \<^verbatim>\<open>RUNNING\<close>.
  The Store's \<^verbatim>\<open>execution.create\<close> is taken to succeed.
\<close>

record automationRule =
  rule_id :: string
  rule_name :: string
  rule_workspaceId :: string
  enabled :: bool

record triggerEvent =
  event_type :: string
  automationId :: string

type_synonym workItem = "automationRule \<times> triggerEvent"

record executionRow =
  row_automationId :: string
  row_status :: executionStatus

text \<open>
  The executor's state.  \<open>executions\<close> is the Store's Execution table, a row's position
  being its identifier; \<open>inFlight\<close> lists the runs that have entered \<^verbatim>\<open>runExecution\<close> and
  not settled, by row identifier.  \<open>arrived\<close> and \<open>admitted\<close> are not in the source: they
  log the calls of \<^verbatim>\<open>executeAutomation\<close> and of \<^verbatim>\<open>runExecution\<close> in order, so that the
  order of admission can be stated.
\<close>

record executor =
  activeExecutions :: nat
  executionQueue :: "workItem list"
  executions :: "executionRow list"
  inFlight :: "nat list"
  arrived :: "workItem list"
  admitted :: "workItem list"

definition newExecutor :: executor where
  "newExecutor =
     \<lparr>activeExecutions = 0, executionQueue = [], executions = [], inFlight = [],
      arrived = [], admitted = []\<rparr>"

text \<open>
  The constructor's \<^verbatim>\<open>config?.maxConcurrentExecutions || 10\<close>: a missing or zero value
  gives 10.  The cap is a count of runs, so it is a natural number here.
\<close>

definition maxConcurrentExecutions :: "nat option \<Rightarrow> nat" where
  "maxConcurrentExecutions cfg = (case cfg of None \<Rightarrow> 10 | Some n \<Rightarrow> if n = 0 then 10 else n)"

text \<open>The synchronous start of \<^verbatim>\<open>runExecution\<close>.\<close>

definition runExecution_start :: "workItem \<Rightarrow> executor \<Rightarrow> executor" where
  "runExecution_start item st =
     st\<lparr>activeExecutions := activeExecutions st + 1,
        executions := executions st @
          [\<lparr>row_automationId = rule_id (fst item), row_status = RUNNING\<rparr>],
        inFlight := inFlight st @ [length (executions st)],
        admitted := admitted st @ [item]\<rparr>"

definition executeAutomation :: "nat \<Rightarrow> workItem \<Rightarrow> executor \<Rightarrow> executor" where
  "executeAutomation mx item st =
     (if activeExecutions st \<ge> mx
      then st\<lparr>executionQueue := executionQueue st @ [item], arrived := arrived st @ [item]\<rparr>
      else runExecution_start item (st\<lparr>arrived := arrived st @ [item]\<rparr>))"

function drainQueue :: "nat \<Rightarrow> executor \<Rightarrow> executor" where
  "drainQueue mx st =
     (if executionQueue st \<noteq> [] \<and> activeExecutions st < mx
      then drainQueue mx
             (runExecution_start (hd (executionQueue st))
                (st\<lparr>executionQueue := tl (executionQueue st)\<rparr>))
      else st)"
  by pat_completeness auto
termination
  by (relation "measure (\<lambda>(mx, st). length (executionQueue st))")
     (auto simp add: runExecution_start_def)

declare drainQueue.simps [simp del]

text \<open>
  The end of \<^verbatim>\<open>runExecution\<close> for the run with row \<open>rid\<close>: the row gets its final
  status, then \<^verbatim>\<open>this.activeExecutions--; this.drainQueue()\<close>.
\<close>

definition runExecution_finish :: "nat \<Rightarrow> nat \<Rightarrow> executionStatus \<Rightarrow> executor \<Rightarrow> executor" where
  "runExecution_finish mx rid final st =
     drainQueue mx
       (st\<lparr>executions := (executions st)[rid := (executions st ! rid)\<lparr>row_status := final\<rparr>],
           inFlight := remove1 rid (inFlight st),
           activeExecutions := activeExecutions st - 1\<rparr>)"

datatype executorEvent =
    Execute workItem
  | Finish nat executionStatus
  | Reject nat

fun executorStep :: "nat \<Rightarrow> executor \<Rightarrow> executorEvent \<Rightarrow> executor" where
  "executorStep mx st (Execute item) = executeAutomation mx item st"
| "executorStep mx st (Finish rid final) =
     (if rid \<in> set (inFlight st) then runExecution_finish mx rid final st else st)"
| "executorStep mx st (Reject rid) =
     (if rid \<in> set (inFlight st) then st\<lparr>inFlight := remove1 rid (inFlight st)\<rparr> else st)"

definition executorRun :: "nat \<Rightarrow> executorEvent list \<Rightarrow> executor" where
  "executorRun mx evs = foldl (executorStep mx) newExecutor evs"

text \<open>
  \<^verbatim>\<open>handleTriggerEvent\<close>, the callback given to the trigger manager.  \<open>findUnique\<close> is the
  Store's answer to \<^verbatim>\<open>getAutomationRule\<close>: an exception, no row, or the rule.  The value
  returned is how the callback's promise settles: an exception of the lookup propagates,
  an exception of \<^verbatim>\<open>executeAutomation\<close> is caught and logged.
\<close>

definition handleTriggerEvent ::
    "nat \<Rightarrow> (string \<Rightarrow> string + automationRule option) \<Rightarrow> triggerEvent \<Rightarrow> executor
      \<Rightarrow> (string + unit) \<times> executor" where
  "handleTriggerEvent mx findUnique event st =
     (case findUnique (automationId event) of
        Inl err \<Rightarrow> (Inl err, st)
      | Inr None \<Rightarrow> (Inr (), st)
      | Inr (Some automation) \<Rightarrow>
          (if \<not> enabled automation then (Inr (), st)
           else (Inr (), executeAutomation mx (automation, event) st)))"

section \<open>Concurrency gate: invariant and examples\<close>

text \<open>
  The invariant of the gate: the runs in flight are counted by \<^verbatim>\<open>activeExecutions\<close>,
  which never exceeds the cap; nothing waits in the queue while a slot is free; and the
  runs admitted so far, followed by the queue, are the arrivals in their order.
  \<open>drainPre\<close> is the invariant without its third part, as it holds between the
  decrement and \<^verbatim>\<open>drainQueue\<close>.
\<close>

definition gateInv :: "nat \<Rightarrow> executor \<Rightarrow> bool" where
  "gateInv mx st =
     (length (inFlight st) \<le> activeExecutions st \<and> activeExecutions st \<le> mx \<and>
      (executionQueue st = [] \<or> activeExecutions st = mx) \<and>
      admitted st @ executionQueue st = arrived st)"

definition drainPre :: "nat \<Rightarrow> executor \<Rightarrow> bool" where
  "drainPre mx st =
     (length (inFlight st) \<le> activeExecutions st \<and> activeExecutions st \<le> mx \<and>
      admitted st @ executionQueue st = arrived st)"

text \<open>Two work items and a Store with no rule, for concrete runs.\<close>

definition itemA :: workItem where
  "itemA = (\<lparr>rule_id = ''rule-a'', rule_name = ''A'', rule_workspaceId = ''ws'', enabled = True\<rparr>,
            \<lparr>event_type = ''manual'', automationId = ''rule-a''\<rparr>)"

definition itemB :: workItem where
  "itemB = (\<lparr>rule_id = ''rule-b'', rule_name = ''B'', rule_workspaceId = ''ws'', enabled = True\<rparr>,
            \<lparr>event_type = ''manual'', automationId = ''rule-b''\<rparr>)"

definition emptyStore :: "string \<Rightarrow> string + automationRule option" where
  "emptyStore rid = Inr None"

section \<open>Trigger manager: polling\<close>

text \<open>
  \<^verbatim>\<open>TriggerManager\<close> (\<^verbatim>\<open>src/engine/trigger-manager.ts\<close>).  A poll tick reads and writes
  the rule's TriggerState row, calls the upstream service, and hands events to the
  handler it was constructed with.  The Store is a map from rule identifiers to rows; the
  upstream service and the handler are parameters (\<open>upstream\<close>) that thread a world state
  \<open>'w\<close> and may throw (\<open>Inl\<close> of the message).  Times are milliseconds since the epoch.

  \<^verbatim>\<open>lastSeenData\<close> is a JSON object whose keys are the 12-digit hexadecimal hashes of
  \<^verbatim>\<open>hashEvent\<close>, each mapped to \<^verbatim>\<open>true\<close>, and the key \<^verbatim>\<open>oqlCount\<close>, which no hash
  equals; the two are kept apart here.
\<close>

record lastSeenData =
  seenHashes :: "string set"
  oqlCount :: "int option"

record triggerState =
  lastCheckedAt :: nat
  lastSeenData :: lastSeenData

type_synonym triggerStore = "string \<Rightarrow> triggerState option"

record pollItem =
  item_id :: string
  item_createdAt :: string
  item_updatedAt :: string

text \<open>
  A history entry; \<open>h_changes\<close> lists the changed fields, each with the \<^verbatim>\<open>from\<close> value
  of its change when the change is an object that has one.
\<close>

record 'v historyEntry =
  h_createdAt :: string
  h_action :: string
  h_changes :: "(string \<times> 'v option) list option"

record catalog =
  cat_id :: string
  cat_name :: string

record attribute =
  attr_name :: string
  attr_type :: string

record 'v oqlResult =
  totalCount :: int
  rows :: "'v list"

record 'v pollEvent = triggerEvent +
  ev_item :: "pollItem option"
  ev_previousValues :: "(string \<times> 'v) list option"
  ev_oqlResults :: "'v list option"

datatype triggerConfig =
    ItemCreatedTrigger "string option" "string option"
  | ItemUpdatedTrigger "string option" "string option" "string list option"
  | AttributeChangedTrigger "string option" "string option" string
  | StatusChangedTrigger "string option" "string option"
  | OqlMatchTrigger string string
  | OtherTrigger string

record ('v, 'w) upstream =
  listItems :: "string \<Rightarrow> string \<Rightarrow> 'w \<Rightarrow> (string + pollItem list) \<times> 'w"
  getHistory :: "string \<Rightarrow> 'w \<Rightarrow> (string + 'v historyEntry list) \<times> 'w"
  listCatalogs :: "string \<Rightarrow> 'w \<Rightarrow> (string + catalog list) \<times> 'w"
  listAttributes :: "string \<Rightarrow> 'w \<Rightarrow> (string + attribute list) \<times> 'w"
  executeOql :: "string \<Rightarrow> string \<Rightarrow> 'w \<Rightarrow> (string + 'v oqlResult) \<times> 'w"
  handler :: "'v pollEvent \<Rightarrow> 'w \<Rightarrow> (string + unit) \<times> 'w"
  hashEvent :: "string \<Rightarrow> string"
  dateOf :: "string \<Rightarrow> nat option"
  lowerCase :: "string \<Rightarrow> string"

text \<open>
  \<^verbatim>\<open>prisma.triggerState.update\<close> with \<^verbatim>\<open>data: { lastSeenData }\<close> and with
  \<^verbatim>\<open>data: { lastCheckedAt }\<close>: one field of the rule's row is replaced; the update of a
  missing row throws.
\<close>

definition updateLastSeenData :: "string \<Rightarrow> lastSeenData \<Rightarrow> triggerStore \<Rightarrow> string + triggerStore" where
  "updateLastSeenData aid seen store =
     (case store aid of
        None \<Rightarrow> Inl ''Record to update not found''
      | Some row \<Rightarrow> Inr (store(aid \<mapsto> row\<lparr>lastSeenData := seen\<rparr>)))"

definition updateLastCheckedAt :: "string \<Rightarrow> nat \<Rightarrow> triggerStore \<Rightarrow> string + triggerStore" where
  "updateLastCheckedAt aid t store =
     (case store aid of
        None \<Rightarrow> Inl ''Record to update not found''
      | Some row \<Rightarrow> Inr (store(aid \<mapsto> row\<lparr>lastCheckedAt := t\<rparr>)))"

text \<open>\<^verbatim>\<open>new Date(s) > lastChecked\<close>: false for a string that is not a date.\<close>

definition isAfter :: "('v, 'w) upstream \<Rightarrow> string \<Rightarrow> nat \<Rightarrow> bool" where
  "isAfter up s lastChecked = (case dateOf up s of None \<Rightarrow> False | Some t \<Rightarrow> t > lastChecked)"

text \<open>
  \<^verbatim>\<open>trigger.catalogId || await this.resolveCatalogId(trigger.catalogName, workspaceId)\<close>;
  an absent or empty string is falsy.
\<close>

definition resolveCatalogId ::
    "('v, 'w) upstream \<Rightarrow> string option \<Rightarrow> string \<Rightarrow> 'w \<Rightarrow> (string + string option) \<times> 'w" where
  "resolveCatalogId up catalogName workspace w =
     (if catalogName = None \<or> catalogName = Some [] then (Inr None, w)
      else
        (case listCatalogs up workspace w of
           (Inl err, w1) \<Rightarrow> (Inl err, w1)
         | (Inr catalogs, w1) \<Rightarrow>
             (Inr (map_option cat_id
                     (find (\<lambda>c. lowerCase up (cat_name c) = lowerCase up (the catalogName))
                        catalogs)),
              w1)))"

definition triggerCatalogId ::
    "('v, 'w) upstream \<Rightarrow> string option \<Rightarrow> string option \<Rightarrow> string \<Rightarrow> 'w
      \<Rightarrow> (string + string option) \<times> 'w" where
  "triggerCatalogId up cid catalogName workspace w =
     (if cid \<noteq> None \<and> cid \<noteq> Some [] then (Inr cid, w)
      else resolveCatalogId up catalogName workspace w)"

text \<open>
  The loop of \<^verbatim>\<open>pollItemCreated\<close> over the listed items.  The local object
  \<^verbatim>\<open>lastSeen\<close> is threaded with the Store and the world; an exception of the handler
  leaves the loop with the writes made so far.
\<close>

fun pollItemCreated_loop ::
    "('v, 'w) upstream \<Rightarrow> string \<Rightarrow> nat \<Rightarrow> pollItem list \<Rightarrow> lastSeenData \<Rightarrow> triggerStore \<Rightarrow> 'w
      \<Rightarrow> (string + unit) \<times> triggerStore \<times> 'w" where
  "pollItemCreated_loop up aid lastChecked [] lastSeen store w = (Inr (), store, w)"
| "pollItemCreated_loop up aid lastChecked (it # items) lastSeen store w =
     (if isAfter up (item_createdAt it) lastChecked then
        (let hash = hashEvent up (''item.created:'' @ item_id it) in
         if hash \<in> seenHashes lastSeen
           then pollItemCreated_loop up aid lastChecked items lastSeen store w
         else
           (case handler up
                   \<lparr>event_type = ''item.created'', automationId = aid, ev_item = Some it,
                    ev_previousValues = None, ev_oqlResults = None\<rparr> w of
              (Inl err, w1) \<Rightarrow> (Inl err, store, w1)
            | (Inr u, w1) \<Rightarrow>
                (let lastSeen1 = lastSeen\<lparr>seenHashes := insert hash (seenHashes lastSeen)\<rparr> in
                 case updateLastSeenData aid lastSeen1 store of
                   Inl err \<Rightarrow> (Inl err, store, w1)
                 | Inr store1 \<Rightarrow>
                     pollItemCreated_loop up aid lastChecked items lastSeen1 store1 w1)))
      else pollItemCreated_loop up aid lastChecked items lastSeen store w)"

definition pollItemCreated ::
    "('v, 'w) upstream \<Rightarrow> automationRule \<Rightarrow> string option \<Rightarrow> string option \<Rightarrow> nat
      \<Rightarrow> lastSeenData \<Rightarrow> triggerStore \<Rightarrow> 'w \<Rightarrow> (string + unit) \<times> triggerStore \<times> 'w" where
  "pollItemCreated up automation cid catalogName lastChecked lastSeen store w =
     (case triggerCatalogId up cid catalogName (rule_workspaceId automation) w of
        (Inl err, w1) \<Rightarrow> (Inl err, store, w1)
      | (Inr resolved, w1) \<Rightarrow>
          (if resolved = None \<or> resolved = Some [] then (Inr (), store, w1)
           else
             (case listItems up (the resolved) ''createdAt'' w1 of
                (Inl err, w2) \<Rightarrow> (Inl err, store, w2)
              | (Inr items, w2) \<Rightarrow>
                  pollItemCreated_loop up (rule_id automation) lastChecked items lastSeen
                    store w2)))"

text \<open>
  \<^verbatim>\<open>pollItemUpdated\<close>.  With watched attributes, an item counts only if a recent
  \<^verbatim>\<open>UPDATED\<close> history entry changes one of them; the previous values come from the first
  \<^verbatim>\<open>UPDATED\<close> entry of a second read of the history.
\<close>

definition relevantChange ::
    "('v, 'w) upstream \<Rightarrow> string list \<Rightarrow> nat \<Rightarrow> 'v historyEntry list \<Rightarrow> bool" where
  "relevantChange up attrs lastChecked history =
     list_ex (\<lambda>h. list_ex (\<lambda>a. a \<in> set (map fst (case h_changes h of None \<Rightarrow> [] | Some cs \<Rightarrow> cs)))
                     attrs)
       (filter (\<lambda>h. isAfter up (h_createdAt h) lastChecked \<and> h_action h = ''UPDATED'') history)"

definition previousValuesOf :: "'v historyEntry list \<Rightarrow> (string \<times> 'v) list" where
  "previousValuesOf history =
     (case find (\<lambda>h. h_action h = ''UPDATED'') history of
        None \<Rightarrow> []
      | Some latestChange \<Rightarrow>
          (case h_changes latestChange of
             None \<Rightarrow> []
           | Some cs \<Rightarrow> List.map_filter (\<lambda>(field, change). map_option (Pair field) change) cs))"

fun pollItemUpdated_loop ::
    "('v, 'w) upstream \<Rightarrow> string \<Rightarrow> string list option \<Rightarrow> nat \<Rightarrow> pollItem list \<Rightarrow> lastSeenData
      \<Rightarrow> triggerStore \<Rightarrow> 'w \<Rightarrow> (string + unit) \<times> triggerStore \<times> 'w" where
  "pollItemUpdated_loop up aid attrs lastChecked [] lastSeen store w = (Inr (), store, w)"
| "pollItemUpdated_loop up aid attrs lastChecked (it # items) lastSeen store w =
     (if isAfter up (item_updatedAt it) lastChecked then
        (case (if attrs \<noteq> None \<and> attrs \<noteq> Some [] then
                 (case getHistory up (item_id it) w of
                    (Inl err, w0) \<Rightarrow> (Inl err, w0)
                  | (Inr history, w0) \<Rightarrow>
                      (Inr (relevantChange up (the attrs) lastChecked history), w0))
               else (Inr True, w)) of
           (Inl err, w0) \<Rightarrow> (Inl err, store, w0)
         | (Inr relevant, w0) \<Rightarrow>
             (let hash = hashEvent up
                    (''item.updated:'' @ item_id it @ '':'' @ item_updatedAt it) in
              if \<not> relevant \<or> hash \<in> seenHashes lastSeen
                then pollItemUpdated_loop up aid attrs lastChecked items lastSeen store w0
              else
                (case getHistory up (item_id it) w0 of
                   (Inl err, w1) \<Rightarrow> (Inl err, store, w1)
                 | (Inr history, w1) \<Rightarrow>
                     (case handler up
                             \<lparr>event_type = ''item.updated'', automationId = aid,
                              ev_item = Some it,
                              ev_previousValues = Some (previousValuesOf history),
                              ev_oqlResults = None\<rparr> w1 of
                        (Inl err, w2) \<Rightarrow> (Inl err, store, w2)
                      | (Inr u, w2) \<Rightarrow>
                          (let lastSeen1 =
                                 lastSeen\<lparr>seenHashes := insert hash (seenHashes lastSeen)\<rparr> in
                           case updateLastSeenData aid lastSeen1 store of
                             Inl err \<Rightarrow> (Inl err, store, w2)
                           | Inr store1 \<Rightarrow>
                               pollItemUpdated_loop up aid attrs lastChecked items lastSeen1
                                 store1 w2)))))
      else pollItemUpdated_loop up aid attrs lastChecked items lastSeen store w)"

definition pollItemUpdated ::
    "('v, 'w) upstream \<Rightarrow> automationRule \<Rightarrow> string option \<Rightarrow> string option \<Rightarrow> string list option
      \<Rightarrow> nat \<Rightarrow> lastSeenData \<Rightarrow> triggerStore \<Rightarrow> 'w \<Rightarrow> (string + unit) \<times> triggerStore \<times> 'w" where
  "pollItemUpdated up automation cid catalogName attrs lastChecked lastSeen store w =
     (case triggerCatalogId up cid catalogName (rule_workspaceId automation) w of
        (Inl err, w1) \<Rightarrow> (Inl err, store, w1)
      | (Inr resolved, w1) \<Rightarrow>
          (if resolved = None \<or> resolved = Some [] then (Inr (), store, w1)
           else
             (case listItems up (the resolved) ''updatedAt'' w1 of
                (Inl err, w2) \<Rightarrow> (Inl err, store, w2)
              | (Inr items, w2) \<Rightarrow>
                  pollItemUpdated_loop up (rule_id automation) attrs lastChecked items lastSeen
                    store w2)))"

text \<open>
  \<^verbatim>\<open>pollAttributeChanged\<close> reuses the item-updated poll with the one attribute watched;
  \<^verbatim>\<open>pollStatusChanged\<close> finds the catalog's \<^verbatim>\<open>STATUS\<close> attribute and polls for its
  changes.
\<close>

definition pollAttributeChanged ::
    "('v, 'w) upstream \<Rightarrow> automationRule \<Rightarrow> string option \<Rightarrow> string option \<Rightarrow> string
      \<Rightarrow> nat \<Rightarrow> lastSeenData \<Rightarrow> triggerStore \<Rightarrow> 'w \<Rightarrow> (string + unit) \<times> triggerStore \<times> 'w" where
  "pollAttributeChanged up automation cid catalogName attributeName lastChecked lastSeen store w =
     pollItemUpdated up automation cid catalogName (Some [attributeName]) lastChecked lastSeen
       store w"

definition pollStatusChanged ::
    "('v, 'w) upstream \<Rightarrow> automationRule \<Rightarrow> string option \<Rightarrow> string option
      \<Rightarrow> nat \<Rightarrow> lastSeenData \<Rightarrow> triggerStore \<Rightarrow> 'w \<Rightarrow> (string + unit) \<times> triggerStore \<times> 'w" where
  "pollStatusChanged up automation cid catalogName lastChecked lastSeen store w =
     (case triggerCatalogId up cid catalogName (rule_workspaceId automation) w of
        (Inl err, w1) \<Rightarrow> (Inl err, store, w1)
      | (Inr resolved, w1) \<Rightarrow>
          (if resolved = None \<or> resolved = Some [] then (Inr (), store, w1)
           else
             (case listAttributes up (the resolved) w1 of
                (Inl err, w2) \<Rightarrow> (Inl err, store, w2)
              | (Inr attributes, w2) \<Rightarrow>
                  (case find (\<lambda>a. attr_type a = ''STATUS'') attributes of
                     None \<Rightarrow> (Inr (), store, w2)
                   | Some statusAttr \<Rightarrow>
                       pollAttributeChanged up automation resolved None (attr_name statusAttr)
                         lastChecked lastSeen store w2))))"

text \<open>
  \<^verbatim>\<open>pollOqlMatch\<close>.  \<open>shouldTrigger\<close> is the \<^verbatim>\<open>switch\<close> on \<^verbatim>\<open>trigger.triggerOn\<close>, with
  \<^verbatim>\<open>prevCount = lastSeen.oqlCount ?? -1\<close>.  The whole body stands in a \<^verbatim>\<open>try\<close> whose
  \<^verbatim>\<open>catch\<close> only logs, so the poll never throws: an exception of the query or of the
  handler ends it before the count is stored.
\<close>

definition prevCountOf :: "lastSeenData \<Rightarrow> int" where
  "prevCountOf lastSeen = (case oqlCount lastSeen of None \<Rightarrow> - 1 | Some n \<Rightarrow> n)"

definition shouldTrigger :: "string \<Rightarrow> int \<Rightarrow> int \<Rightarrow> bool" where
  "shouldTrigger triggerOn currentCount prevCount =
     (if triggerOn = ''any_results'' then currentCount > 0
      else if triggerOn = ''new_results'' then currentCount > prevCount \<and> prevCount \<ge> 0
      else if triggerOn = ''count_change'' then currentCount \<noteq> prevCount \<and> prevCount \<ge> 0
      else False)"

definition pollOqlMatch ::
    "('v, 'w) upstream \<Rightarrow> automationRule \<Rightarrow> string \<Rightarrow> string \<Rightarrow> lastSeenData \<Rightarrow> triggerStore \<Rightarrow> 'w
      \<Rightarrow> (string + unit) \<times> triggerStore \<times> 'w" where
  "pollOqlMatch up automation query triggerOn lastSeen store w =
     (case executeOql up query (rule_workspaceId automation) w of
        (Inl err, w1) \<Rightarrow> (Inr (), store, w1)
      | (Inr result, w1) \<Rightarrow>
          (case (if shouldTrigger triggerOn (totalCount result) (prevCountOf lastSeen)
                 then handler up
                        \<lparr>event_type = ''oql.match'', automationId = rule_id automation,
                         ev_item = None, ev_previousValues = None,
                         ev_oqlResults = Some (rows result)\<rparr> w1
                 else (Inr (), w1)) of
             (Inl err, w2) \<Rightarrow> (Inr (), store, w2)
           | (Inr u, w2) \<Rightarrow>
               (case updateLastSeenData (rule_id automation)
                       (lastSeen\<lparr>oqlCount := Some (totalCount result)\<rparr>) store of
                  Inl err \<Rightarrow> (Inr (), store, w2)
                | Inr store1 \<Rightarrow> (Inr (), store1, w2))))"

text \<open>
  \<^verbatim>\<open>pollOnce\<close>.  The clock is read when a missing row is created and when
  \<^verbatim>\<open>lastCheckedAt\<close> is written at the end; \<open>tickClock\<close> carries the two readings of one
  tick.  Trigger kinds without a case in the \<^verbatim>\<open>switch\<close> poll nothing.
\<close>

record tickClock =
  atLoad :: nat
  atUpdate :: nat

definition kindSpecificPoll ::
    "('v, 'w) upstream \<Rightarrow> automationRule \<Rightarrow> triggerConfig \<Rightarrow> nat \<Rightarrow> lastSeenData \<Rightarrow> triggerStore \<Rightarrow> 'w
      \<Rightarrow> (string + unit) \<times> triggerStore \<times> 'w" where
  "kindSpecificPoll up automation trigger lastChecked lastSeen store w =
     (case trigger of
        ItemCreatedTrigger cid cname \<Rightarrow>
          pollItemCreated up automation cid cname lastChecked lastSeen store w
      | ItemUpdatedTrigger cid cname attrs \<Rightarrow>
          pollItemUpdated up automation cid cname attrs lastChecked lastSeen store w
      | AttributeChangedTrigger cid cname attributeName \<Rightarrow>
          pollAttributeChanged up automation cid cname attributeName lastChecked lastSeen store w
      | StatusChangedTrigger cid cname \<Rightarrow>
          pollStatusChanged up automation cid cname lastChecked lastSeen store w
      | OqlMatchTrigger query triggerOn \<Rightarrow>
          pollOqlMatch up automation query triggerOn lastSeen store w
      | OtherTrigger kind \<Rightarrow> (Inr (), store, w))"

definition loadTriggerState :: "string \<Rightarrow> nat \<Rightarrow> triggerStore \<Rightarrow> triggerState \<times> triggerStore" where
  "loadTriggerState aid now store =
     (case store aid of
        Some row \<Rightarrow> (row, store)
      | None \<Rightarrow>
          (let row = \<lparr>lastCheckedAt = now,
                      lastSeenData = \<lparr>seenHashes = {}, oqlCount = None\<rparr>\<rparr>
           in (row, store(aid \<mapsto> row))))"

definition pollOnce ::
    "('v, 'w) upstream \<Rightarrow> tickClock \<Rightarrow> automationRule \<Rightarrow> triggerConfig \<Rightarrow> triggerStore \<Rightarrow> 'w
      \<Rightarrow> (string + unit) \<times> triggerStore \<times> 'w" where
  "pollOnce up clock automation trigger store w =
     (case loadTriggerState (rule_id automation) (atLoad clock) store of
        (state, store0) \<Rightarrow>
          (case kindSpecificPoll up automation trigger (lastCheckedAt state) (lastSeenData state)
                  store0 w of
             (Inl err, store1, w1) \<Rightarrow> (Inl err, store1, w1)
           | (Inr u, store1, w1) \<Rightarrow>
               (case updateLastCheckedAt (rule_id automation) (atUpdate clock) store1 of
                  Inl err \<Rightarrow> (Inl err, store1, w1)
                | Inr store2 \<Rightarrow> (Inr (), store2, w1))))"



section \<open>Trigger manager: observations and examples\<close>


definition storedCount :: "triggerStore \<Rightarrow> string \<Rightarrow> int option" where
  "storedCount store aid = (case store aid of None \<Rightarrow> None | Some row \<Rightarrow> oqlCount (lastSeenData row))"


text \<open>
  The condition under which an \<^verbatim>\<open>oql.match\<close> tick fires, in the words of the
  specification: \<open>prev\<close> is the stored count, absent at the first observation.
\<close>

definition firesOn :: "string \<Rightarrow> int \<Rightarrow> int option \<Rightarrow> bool" where
  "firesOn triggerOn observed prev =
     (case prev of
        None \<Rightarrow> triggerOn = ''any_results'' \<and> observed > 0
      | Some p \<Rightarrow>
          (triggerOn = ''any_results'' \<and> observed > 0) \<or>
          (triggerOn = ''new_results'' \<and> observed > p \<and> p \<ge> 0) \<or>
          (triggerOn = ''count_change'' \<and> observed \<noteq> p \<and> p \<ge> 0))"

text \<open>
  Upstream services for concrete ticks.  The query always answers \<open>n\<close> rows and listing
  items always fails; the world state counts the events handed to the handler, which
  succeeds in \<open>countingUpstream\<close> and throws in \<open>throwingUpstream\<close>.
\<close>

definition countingUpstream :: "int \<Rightarrow> (unit, nat) upstream" where
  "countingUpstream n =
     \<lparr>listItems = (\<lambda>cid sortBy w. (Inl ''503 Service Unavailable'', w)),
      getHistory = (\<lambda>iid w. (Inr [], w)),
      listCatalogs = (\<lambda>ws w. (Inr [], w)),
      listAttributes = (\<lambda>cid w. (Inr [], w)),
      executeOql = (\<lambda>q ws w. (Inr \<lparr>totalCount = n, rows = []\<rparr>, w)),
      handler = (\<lambda>ev w. (Inr (), Suc w)),
      hashEvent = (\<lambda>s. s),
      dateOf = (\<lambda>s. None),
      lowerCase = (\<lambda>s. s)\<rparr>"

definition throwingUpstream :: "int \<Rightarrow> (unit, nat) upstream" where
  "throwingUpstream n = (countingUpstream n)\<lparr>handler := (\<lambda>ev w. (Inl ''store unreachable'', w))\<rparr>"

definition ruleA :: automationRule where
  "ruleA = \<lparr>rule_id = ''rule-a'', rule_name = ''A'', rule_workspaceId = ''ws'', enabled = True\<rparr>"

definition storeWithCount :: "nat \<Rightarrow> int \<Rightarrow> triggerStore" where
  "storeWithCount t n =
     Map.empty(''rule-a'' \<mapsto>
       \<lparr>lastCheckedAt = t, lastSeenData = \<lparr>seenHashes = {}, oqlCount = Some n\<rparr>\<rparr>)"


text \<open>The event an \<^verbatim>\<open>oql.match\<close> tick hands to the handler.\<close>

definition oqlEvent :: "automationRule \<Rightarrow> 'v oqlResult \<Rightarrow> 'v pollEvent" where
  "oqlEvent automation result =
     \<lparr>event_type = ''oql.match'', automationId = rule_id automation,
      ev_item = None, ev_previousValues = None, ev_oqlResults = Some (rows result)\<rparr>"

section \<open>JavaScript values\<close>

text \<open>
  The values that attribute values, condition operands and template expressions range
  over.  A number is an exact rational (the rounding of IEEE doubles is not modelled),
  with \<^verbatim>\<open>NaN\<close> apart; strings are lists of 8-bit characters.  Arrays and objects carry no
  identity: wherever the source compares two of them by reference they come from
  different places (an item of the upstream service and a rule's configuration), so the
  comparison is false.
\<close>

datatype jsValue =
    JUndefined
  | JNull
  | JBool bool
  | JNaN
  | JNum rat
  | JStr string
  | JArr "jsValue list"
  | JObj "(string \<times> jsValue) list"

text \<open>
  The conversions of the runtime that are taken as parameters: the decimal form of a
  number that is not an integer, \<^verbatim>\<open>Number(s)\<close> of a string (\<open>None\<close> for \<^verbatim>\<open>NaN\<close>), and
  \<^verbatim>\<open>new RegExp(p).test(s)\<close> (\<open>None\<close> when the pattern does not compile).
\<close>

record jsRuntime =
  fractionToString :: "rat \<Rightarrow> string"
  stringToNumber :: "string \<Rightarrow> rat option"
  regexTest :: "string \<Rightarrow> string \<Rightarrow> bool option"

fun natToString :: "nat \<Rightarrow> string" where
  "natToString n =
     (if n < 10 then [''0123456789'' ! n]
      else natToString (n div 10) @ [''0123456789'' ! (n mod 10)])"

declare natToString.simps [simp del]

definition intToString :: "int \<Rightarrow> string" where
  "intToString i = (if i < 0 then CHR ''-'' # natToString (nat (- i)) else natToString (nat i))"

definition numberToString :: "jsRuntime \<Rightarrow> rat \<Rightarrow> string" where
  "numberToString rt r =
     (if r = of_int \<lfloor>r\<rfloor> then intToString \<lfloor>r\<rfloor> else fractionToString rt r)"

definition isNullish :: "jsValue \<Rightarrow> bool" where
  "isNullish v = (v = JNull \<or> v = JUndefined)"

text \<open>\<^verbatim>\<open>String(v)\<close>; an array joins its elements with commas, null and undefined as empty.\<close>

fun joinWith :: "string \<Rightarrow> string list \<Rightarrow> string" where
  "joinWith sep [] = []"
| "joinWith sep [s] = s"
| "joinWith sep (s # t # ss) = s @ sep @ joinWith sep (t # ss)"

fun jsString :: "jsRuntime \<Rightarrow> jsValue \<Rightarrow> string" where
  "jsString rt JUndefined = ''undefined''"
| "jsString rt JNull = ''null''"
| "jsString rt (JBool b) = (if b then ''true'' else ''false'')"
| "jsString rt JNaN = ''NaN''"
| "jsString rt (JNum r) = numberToString rt r"
| "jsString rt (JStr s) = s"
| "jsString rt (JArr xs) =
     joinWith '',''
       (map (\<lambda>x. if x = JNull \<or> x = JUndefined then [] else jsString rt x) xs)"
| "jsString rt (JObj fs) = ''[object Object]''"

text \<open>\<^verbatim>\<open>toLowerCase\<close> on the ASCII letters.\<close>

definition lowerChar :: "char \<Rightarrow> char" where
  "lowerChar c =
     (case map_of (zip ''ABCDEFGHIJKLMNOPQRSTUVWXYZ'' ''abcdefghijklmnopqrstuvwxyz'') c of
        Some l \<Rightarrow> l
      | None \<Rightarrow> c)"

definition toLowerCase :: "string \<Rightarrow> string" where
  "toLowerCase s = map lowerChar s"

text \<open>\<^verbatim>\<open>a === b\<close>.\<close>

fun strictEquals :: "jsValue \<Rightarrow> jsValue \<Rightarrow> bool" where
  "strictEquals JUndefined JUndefined = True"
| "strictEquals JNull JNull = True"
| "strictEquals (JBool a) (JBool b) = (a = b)"
| "strictEquals (JNum a) (JNum b) = (a = b)"
| "strictEquals (JStr a) (JStr b) = (a = b)"
| "strictEquals a b = False"

text \<open>Truthiness, and \<^verbatim>\<open>Number(v)\<close> with \<open>None\<close> for \<^verbatim>\<open>NaN\<close>.\<close>

fun truthy :: "jsValue \<Rightarrow> bool" where
  "truthy JUndefined = False"
| "truthy JNull = False"
| "truthy (JBool b) = b"
| "truthy JNaN = False"
| "truthy (JNum r) = (r \<noteq> 0)"
| "truthy (JStr s) = (s \<noteq> [])"
| "truthy (JArr xs) = True"
| "truthy (JObj fs) = True"

fun jsNumber :: "jsRuntime \<Rightarrow> jsValue \<Rightarrow> rat option" where
  "jsNumber rt JUndefined = None"
| "jsNumber rt JNull = Some 0"
| "jsNumber rt (JBool b) = Some (if b then 1 else 0)"
| "jsNumber rt JNaN = None"
| "jsNumber rt (JNum r) = Some r"
| "jsNumber rt (JStr s) = stringToNumber rt s"
| "jsNumber rt (JArr xs) = stringToNumber rt (jsString rt (JArr xs))"
| "jsNumber rt (JObj fs) = None"

section \<open>Condition evaluator: comparing values\<close>

text \<open>\<^verbatim>\<open>looseEquals\<close> of \<^verbatim>\<open>src/engine/condition-evaluator.ts\<close>.\<close>

definition looseEquals :: "jsRuntime \<Rightarrow> jsValue \<Rightarrow> jsValue \<Rightarrow> bool" where
  "looseEquals rt a b =
     (if strictEquals a b then True
      else if isNullish a \<and> isNullish b then True
      else toLowerCase (jsString rt a) = toLowerCase (jsString rt b))"

text \<open>
  \<^verbatim>\<open>String(v || '').toLowerCase()\<close>, the numeric comparisons (false when either side is
  \<^verbatim>\<open>NaN\<close>), and JavaScript's \<^verbatim>\<open>includes\<close>, \<^verbatim>\<open>startsWith\<close> and \<^verbatim>\<open>endsWith\<close>.
\<close>

definition lowerOrEmpty :: "jsRuntime \<Rightarrow> jsValue \<Rightarrow> string" where
  "lowerOrEmpty rt v = toLowerCase (if truthy v then jsString rt v else [])"

definition numCompare :: "(rat \<Rightarrow> rat \<Rightarrow> bool) \<Rightarrow> jsRuntime \<Rightarrow> jsValue \<Rightarrow> jsValue \<Rightarrow> bool" where
  "numCompare rel rt a b =
     (case (jsNumber rt a, jsNumber rt b) of (Some x, Some y) \<Rightarrow> rel x y | _ \<Rightarrow> False)"

fun startsWith :: "string \<Rightarrow> string \<Rightarrow> bool" where
  "startsWith s [] = True"
| "startsWith [] (p # ps) = False"
| "startsWith (c # cs) (p # ps) = (c = p \<and> startsWith cs ps)"

fun includesStr :: "string \<Rightarrow> string \<Rightarrow> bool" where
  "includesStr [] p = (p = [])"
| "includesStr (c # cs) p = (startsWith (c # cs) p \<or> includesStr cs p)"

definition endsWith :: "string \<Rightarrow> string \<Rightarrow> bool" where
  "endsWith s p = startsWith (rev s) (rev p)"

text \<open>\<^verbatim>\<open>compareValue\<close>: the \<^verbatim>\<open>switch\<close> on the operator; an unknown operator is false.\<close>

definition compareValue ::
    "jsRuntime \<Rightarrow> string \<Rightarrow> jsValue \<Rightarrow> jsValue \<Rightarrow> jsValue \<Rightarrow> jsValue \<Rightarrow> jsValue \<Rightarrow> bool" where
  "compareValue rt operator currentValue targetValue previousValue fromValue toValue =
     (if operator = ''equals'' then looseEquals rt currentValue targetValue
      else if operator = ''not_equals'' then \<not> looseEquals rt currentValue targetValue
      else if operator = ''contains'' then
        includesStr (lowerOrEmpty rt currentValue) (lowerOrEmpty rt targetValue)
      else if operator = ''not_contains'' then
        \<not> includesStr (lowerOrEmpty rt currentValue) (lowerOrEmpty rt targetValue)
      else if operator = ''starts_with'' then
        startsWith (lowerOrEmpty rt currentValue) (lowerOrEmpty rt targetValue)
      else if operator = ''ends_with'' then
        endsWith (lowerOrEmpty rt currentValue) (lowerOrEmpty rt targetValue)
      else if operator = ''greater_than'' then numCompare (>) rt currentValue targetValue
      else if operator = ''less_than'' then numCompare (<) rt currentValue targetValue
      else if operator = ''greater_than_or_equal'' then numCompare (\<ge>) rt currentValue targetValue
      else if operator = ''less_than_or_equal'' then numCompare (\<le>) rt currentValue targetValue
      else if operator = ''in'' then
        (case targetValue of
           JArr vs \<Rightarrow> list_ex (\<lambda>v. looseEquals rt currentValue v) vs
         | _ \<Rightarrow> False)
      else if operator = ''not_in'' then
        (case targetValue of
           JArr vs \<Rightarrow> \<not> list_ex (\<lambda>v. looseEquals rt currentValue v) vs
         | _ \<Rightarrow> False)
      else if operator = ''is_null'' then
        (currentValue = JNull \<or> currentValue = JUndefined \<or> currentValue = JStr [])
      else if operator = ''is_not_null'' then
        (currentValue \<noteq> JNull \<and> currentValue \<noteq> JUndefined \<and> currentValue \<noteq> JStr [])
      else if operator = ''changed_to'' then
        (looseEquals rt currentValue toValue \<and> \<not> looseEquals rt previousValue toValue)
      else if operator = ''changed_from'' then
        (looseEquals rt previousValue fromValue \<and> \<not> looseEquals rt currentValue fromValue)
      else if operator = ''matches_regex'' then
        (case regexTest rt (jsString rt targetValue)
                (if truthy currentValue then jsString rt currentValue else []) of
           Some b \<Rightarrow> b
         | None \<Rightarrow> False)
      else False)"

text \<open>
  The formula of the specification,
  \<^verbatim>\<open>a == b || String(a).toLowerCase() == String(b).toLowerCase()\<close>, with JavaScript's
  abstract equality \<^verbatim>\<open>==\<close>: equal types compare strictly, \<^verbatim>\<open>null\<close> and
  \<^verbatim>\<open>undefined\<close> equal each other and nothing else, a boolean is converted to a number,
  a string compared with a number is converted to a number, and an array or object
  compared with a primitive is converted to its string.
\<close>

fun primitiveEq :: "jsRuntime \<Rightarrow> jsValue \<Rightarrow> jsValue \<Rightarrow> bool" where
  "primitiveEq rt (JStr a) (JStr b) = (a = b)"
| "primitiveEq rt JUndefined b = (b = JUndefined \<or> b = JNull)"
| "primitiveEq rt JNull b = (b = JUndefined \<or> b = JNull)"
| "primitiveEq rt a JUndefined = False"
| "primitiveEq rt a JNull = False"
| "primitiveEq rt a b =
     (case (jsNumber rt a, jsNumber rt b) of (Some x, Some y) \<Rightarrow> x = y | _ \<Rightarrow> False)"

definition toPrimitive :: "jsRuntime \<Rightarrow> jsValue \<Rightarrow> jsValue" where
  "toPrimitive rt v =
     (case v of JArr xs \<Rightarrow> JStr (jsString rt v) | JObj fs \<Rightarrow> JStr (jsString rt v) | _ \<Rightarrow> v)"

definition isObject :: "jsValue \<Rightarrow> bool" where
  "isObject v = (case v of JArr xs \<Rightarrow> True | JObj fs \<Rightarrow> True | _ \<Rightarrow> False)"

definition abstractEquals :: "jsRuntime \<Rightarrow> jsValue \<Rightarrow> jsValue \<Rightarrow> bool" where
  "abstractEquals rt a b =
     (if isObject a \<and> isObject b then False
      else if isNullish a \<or> isNullish b then isNullish a \<and> isNullish b
      else primitiveEq rt (toPrimitive rt a) (toPrimitive rt b))"

definition specEquals :: "jsRuntime \<Rightarrow> jsValue \<Rightarrow> jsValue \<Rightarrow> bool" where
  "specEquals rt a b =
     (abstractEquals rt a b \<or> toLowerCase (jsString rt a) = toLowerCase (jsString rt b))"

text \<open>
  A runtime for concrete evaluations: \<^verbatim>\<open>Number(s)\<close> reads an unsigned decimal integer
  and is \<^verbatim>\<open>NaN\<close> on any other string but the empty one, a number that is not an integer
  prints as \<^verbatim>\<open>?\<close>, and no pattern compiles.
\<close>

fun digitsValue :: "nat \<Rightarrow> string \<Rightarrow> nat option" where
  "digitsValue acc [] = Some acc"
| "digitsValue acc (c # cs) =
     (case map_of (zip ''0123456789'' [0, 1, 2, 3, 4, 5, 6, 7, 8, 9]) c of
        None \<Rightarrow> None
      | Some d \<Rightarrow> digitsValue (acc * 10 + d) cs)"

definition exampleRuntime :: jsRuntime where
  "exampleRuntime =
     \<lparr>fractionToString = (\<lambda>r. ''?''),
      stringToNumber = (\<lambda>s. map_option of_nat (digitsValue 0 s)),
      regexTest = (\<lambda>p s. None)\<rparr>"

section \<open>Smart values: tokens and syntax trees\<close>

text \<open>
  \<^verbatim>\<open>src/engine/smart-values/smart-value-types.ts\<close>: the token types, a token with its
  text and position, and the nodes of the syntax tree.  A literal node carries the value
  it denotes.
\<close>

datatype tokenType =
    IDENTIFIER | DOT | LPAREN | RPAREN | LBRACKET | RBRACKET | COMMA | PIPE
  | STRING | NUMBER | BOOLEAN | NULL | OPERATOR | COLON | EOF

record token =
  tok_type :: tokenType
  tok_value :: string
  tok_position :: int

datatype astNode =
    PathExpression "string list"
  | ChainExpression astNode "chainOperation list"
  | FunctionCallExpression string "astNode list"
  | LiteralExpression jsValue
  | PipeExpression astNode astNode
  | BinaryExpression string astNode astNode
  | OqlExpression string
and chainOperation =
    FunctionCallOp string "astNode list"
  | PropertyAccessOp string
  | IndexAccessOp astNode

text \<open>An exception of the tokenizer or the parser, with the data of its message.\<close>

datatype parseError =
    UnexpectedCharacter char nat
  | UnterminatedString nat
  | UnexpectedToken token
  | ExpectedToken tokenType token
  | OutOfFuel

section \<open>Smart values: the tokenizer\<close>

text \<open>
  The character classes of the tokenizer: \<^verbatim>\<open>\s\<close> (on 8-bit characters: space, the
  control characters 9 to 13, and the no-break space), the digits, and the characters
  that start and continue an identifier.
\<close>

definition isSpace :: "char \<Rightarrow> bool" where
  "isSpace c = (of_char c \<in> {32, 9, 10, 11, 12, 13, 160 :: nat})"

definition isDigit :: "char \<Rightarrow> bool" where
  "isDigit c = (c \<in> set ''0123456789'')"

definition isIdentStart :: "char \<Rightarrow> bool" where
  "isIdentStart c =
     (c \<in> set ''abcdefghijklmnopqrstuvwxyzABCDEFGHIJKLMNOPQRSTUVWXYZ_@'')"

definition isIdentChar :: "char \<Rightarrow> bool" where
  "isIdentChar c = (isIdentStart c \<or> isDigit c)"

definition isOperatorChar :: "char \<Rightarrow> bool" where
  "isOperatorChar c = (c \<in> set ''+-*/=!><'')"

definition mkToken :: "tokenType \<Rightarrow> string \<Rightarrow> nat \<Rightarrow> token" where
  "mkToken ty v p = \<lparr>tok_type = ty, tok_value = v, tok_position = int p\<rparr>"

text \<open>
  \<^verbatim>\<open>readString\<close> after the opening quote: the value read so far, and on success the
  value and the input after the closing quote.  A backslash that is not the last
  character takes the next character literally.
\<close>

fun readString :: "char \<Rightarrow> string \<Rightarrow> string \<Rightarrow> (string \<times> string) option" where
  "readString quote [] acc = None"
| "readString quote [c] acc = (if c = quote then Some (acc, []) else None)"
| "readString quote (c # d # cs) acc =
     (if c = CHR 0x5C then readString quote cs (acc @ [d])
      else if c = quote then Some (acc, d # cs)
      else readString quote (d # cs) (acc @ [c]))"

text \<open>
  The loop of \<^verbatim>\<open>readNumber\<close> after an optional minus sign: digits, and at most one dot
  that a digit follows.
\<close>

fun readDigits :: "bool \<Rightarrow> string \<Rightarrow> string \<Rightarrow> string \<times> string" where
  "readDigits hasDot [] acc = (acc, [])"
| "readDigits hasDot [c] acc = (if isDigit c then (acc @ [c], []) else (acc, [c]))"
| "readDigits hasDot (c # d # cs) acc =
     (if isDigit c then readDigits hasDot (d # cs) (acc @ [c])
      else if c = CHR ''.'' \<and> \<not> hasDot \<and> isDigit d then readDigits True (d # cs) (acc @ [c])
      else (acc, c # d # cs))"

definition readNumber :: "string \<Rightarrow> string \<times> string" where
  "readNumber input =
     (case input of
        c # cs \<Rightarrow> if c = CHR ''-'' then readDigits False cs ''-'' else readDigits False input []
      | [] \<Rightarrow> ([], []))"

text \<open>
  \<^verbatim>\<open>shouldNegateBeNumber\<close>: a minus sign starts a number after an operator, a pipe, an
  opening parenthesis or bracket, a comma, or at the start.
\<close>

definition shouldNegateBeNumber :: "token list \<Rightarrow> bool" where
  "shouldNegateBeNumber toks =
     (toks = [] \<or> tok_type (last toks) \<in> {OPERATOR, PIPE, LPAREN, LBRACKET, COMMA})"

definition singleCharToken :: "char \<Rightarrow> tokenType option" where
  "singleCharToken c =
     map_of [(CHR ''.'', DOT), (CHR ''('', LPAREN), (CHR '')'', RPAREN), (CHR ''['', LBRACKET),
             (CHR '']'', RBRACKET), (CHR '','', COMMA), (CHR ''|'', PIPE), (CHR '':'', COLON)] c"

text \<open>\<^verbatim>\<open>String.prototype.trim\<close>.\<close>

definition trim :: "string \<Rightarrow> string" where
  "trim s = rev (dropWhile isSpace (rev (dropWhile isSpace s)))"

text \<open>
  The loop of \<^verbatim>\<open>tokenize\<close>: \<open>input\<close> is the text from \<^verbatim>\<open>this.pos\<close> on.  Every turn
  consumes at least one character, which is the measure of termination.
\<close>

lemma readString_shorter: "readString q cs acc = Some (v, rest) \<Longrightarrow> length rest \<le> length cs"
  by (induction q cs acc rule: readString.induct) (auto split: if_splits)

lemma readDigits_shorter: "readDigits h cs acc = (v, rest) \<Longrightarrow> length rest \<le> length cs"
  by (induction h cs acc arbitrary: v rest rule: readDigits.induct) (auto split: if_splits)

lemma readDigits_digit: "isDigit c \<Longrightarrow> readDigits h (c # cs) acc = (v, rest) \<Longrightarrow> length rest \<le> length cs"
  by (cases cs) (auto split: if_splits dest: readDigits_shorter)

lemma readNumber_shorter:
  "isDigit c \<or> (c = CHR ''-'' \<and> cs \<noteq> [] \<and> isDigit (hd cs)) \<Longrightarrow>
   readNumber (c # cs) = (v, rest) \<Longrightarrow> length rest \<le> length cs"
  by (cases cs)
     (auto simp add: readNumber_def isDigit_def split: if_splits
           dest: readDigits_digit readDigits_shorter)

function tokenizeLoop :: "string \<Rightarrow> nat \<Rightarrow> token list \<Rightarrow> parseError + token list" where
  "tokenizeLoop input pos toks =
     (case dropWhile isSpace input of
        [] \<Rightarrow> Inr (toks @ [mkToken EOF [] (pos + length input)])
      | ch # cs \<Rightarrow>
          (let p = pos + length (takeWhile isSpace input) in
           if ch = CHR 0x22 \<or> ch = CHR 0x27 then
             (case readString ch cs [] of
                None \<Rightarrow> Inl (UnterminatedString p)
              | Some (v, rest) \<Rightarrow>
                  tokenizeLoop rest (p + (Suc (length cs) - length rest)) (toks @ [mkToken STRING v p]))
           else if isDigit ch \<or>
                   (ch = CHR ''-'' \<and> cs \<noteq> [] \<and> isDigit (hd cs) \<and> shouldNegateBeNumber toks) then
             (case readNumber (ch # cs) of
                (v, rest) \<Rightarrow>
                  tokenizeLoop rest (p + (Suc (length cs) - length rest)) (toks @ [mkToken NUMBER v p]))
           else if singleCharToken ch \<noteq> None then
             tokenizeLoop cs (Suc p) (toks @ [mkToken (the (singleCharToken ch)) [ch] p])
           else if isOperatorChar ch then
             (if take 2 (ch # cs) \<in> {''=='', ''!='', ''>='', ''<=''}
              then tokenizeLoop (tl cs) (p + 2) (toks @ [mkToken OPERATOR (take 2 (ch # cs)) p])
              else tokenizeLoop cs (Suc p) (toks @ [mkToken OPERATOR [ch] p]))
           else if isIdentStart ch then
             (let v = takeWhile isIdentChar (ch # cs);
                  rest = dropWhile isIdentChar (ch # cs)
              in
                if v = ''true'' \<or> v = ''false'' then
                  tokenizeLoop rest (p + length v) (toks @ [mkToken BOOLEAN v p])
                else if v = ''null'' then
                  tokenizeLoop rest (p + length v) (toks @ [mkToken NULL v p])
                else if v = ''oql'' \<and> rest \<noteq> [] \<and> hd rest = CHR '':'' then
                  Inr (toks @ [mkToken IDENTIFIER ''oql'' p,
                               mkToken COLON '':'' (p + length v),
                               mkToken STRING (trim (tl rest)) (p + length v + 1),
                               mkToken EOF [] (pos + length input)])
                else tokenizeLoop rest (p + length v) (toks @ [mkToken IDENTIFIER v p]))
           else Inl (UnexpectedCharacter ch p)))"
  by pat_completeness auto
termination
proof (relation "measure (\<lambda>(input, pos, toks). length input)", goal_cases)
  case 1
  show ?case by simp
next
  case (2 input pos toks ch cs p x2 v rest)
  have "length (dropWhile isSpace input) \<le> length input" by (rule length_dropWhile_le)
  moreover have "length rest \<le> length cs"
    using 2 readString_shorter[of ch cs "[]" v rest] by simp
  ultimately show ?case using 2 by simp
next
  case (3 input pos toks ch cs p v rest)
  have "length (dropWhile isSpace input) \<le> length input" by (rule length_dropWhile_le)
  moreover have "length rest \<le> length cs"
    using 3 readNumber_shorter[of ch cs v rest] by metis
  ultimately show ?case using 3 by simp
next
  case (4 input pos toks ch cs p)
  have "length (dropWhile isSpace input) \<le> length input" by (rule length_dropWhile_le)
  with 4 show ?case by simp
next
  case (5 input pos toks ch cs p)
  have "length (dropWhile isSpace input) \<le> length input" by (rule length_dropWhile_le)
  with 5 show ?case by (cases cs) (auto split: if_splits)
next
  case (6 input pos toks ch cs p)
  have "length (dropWhile isSpace input) \<le> length input" by (rule length_dropWhile_le)
  with 6 show ?case by simp
next
  case (7 input pos toks ch cs p v rest)
  have "length (dropWhile isSpace input) \<le> length input" by (rule length_dropWhile_le)
  moreover have "length rest \<le> length cs"
    using 7 by (simp add: isIdentChar_def length_dropWhile_le)
  ultimately show ?case using 7 by simp
next
  case (8 input pos toks ch cs p v rest)
  have "length (dropWhile isSpace input) \<le> length input" by (rule length_dropWhile_le)
  moreover have "length rest \<le> length cs"
    using 8 by (simp add: isIdentChar_def length_dropWhile_le)
  ultimately show ?case using 8 by simp
next
  case (9 input pos toks ch cs p v rest)
  have "length (dropWhile isSpace input) \<le> length input" by (rule length_dropWhile_le)
  moreover have "length rest \<le> length cs"
    using 9 by (simp add: isIdentChar_def length_dropWhile_le)
  ultimately show ?case using 9 by simp
qed

declare tokenizeLoop.simps [simp del]

definition tokenize :: "string \<Rightarrow> parseError + token list" where
  "tokenize input = tokenizeLoop input 0 []"

section \<open>Smart values: the parser\<close>

text \<open>
  \<^verbatim>\<open>ExpressionParser\<close>: a recursive-descent parser over the token array.  The parser's
  position is the list of tokens not yet consumed; \<^verbatim>\<open>current()\<close> and \<^verbatim>\<open>peek(k)\<close> answer
  an \<^verbatim>\<open>EOF\<close> token with position -1 beyond the end.
\<close>

definition eofToken :: token where
  "eofToken = \<lparr>tok_type = EOF, tok_value = [], tok_position = - 1\<rparr>"

definition current :: "token list \<Rightarrow> token" where
  "current toks = (case toks of [] \<Rightarrow> eofToken | t # ts \<Rightarrow> t)"

definition peek :: "nat \<Rightarrow> token list \<Rightarrow> token" where
  "peek k toks = (if k < length toks then toks ! k else eofToken)"

definition expect :: "tokenType \<Rightarrow> token list \<Rightarrow> parseError + token \<times> token list" where
  "expect ty toks =
     (if tok_type (current toks) \<noteq> ty then Inl (ExpectedToken ty (current toks))
      else Inr (current toks, tl toks))"

text \<open>
  \<^verbatim>\<open>parseFloat\<close> of a \<^verbatim>\<open>NUMBER\<close> token, whose text is an optional minus sign, digits,
  and optionally a dot and more digits.
\<close>

definition parseFloat :: "string \<Rightarrow> jsValue" where
  "parseFloat s =
     (let negative = (s \<noteq> [] \<and> hd s = CHR ''-'');
          body = (if negative then tl s else s);
          whole = takeWhile (\<lambda>c. c \<noteq> CHR ''.'') body;
          frac = drop 1 (dropWhile (\<lambda>c. c \<noteq> CHR ''.'') body)
      in case (digitsValue 0 whole, digitsValue 0 frac) of
           (Some w, Some f) \<Rightarrow>
             (if whole = [] then JNaN
              else JNum ((if negative then - 1 else 1) *
                         (of_nat w + of_nat f / of_nat (10 ^ length frac))))
         | _ \<Rightarrow> JNaN)"

text \<open>
  \<^verbatim>\<open>parsePath\<close> after its first identifier: further \<^verbatim>\<open>.identifier\<close> segments, stopping
  before one that an opening parenthesis follows (a function call of the chain).
\<close>

fun pathLoop :: "string list \<Rightarrow> token list \<Rightarrow> string list \<times> token list" where
  "pathLoop segments (d # i # rest) =
     (if tok_type d = DOT \<and> tok_type i = IDENTIFIER then
        (if tok_type (current rest) = LPAREN then (segments, d # i # rest)
         else pathLoop (segments @ [tok_value i]) rest)
      else (segments, d # i # rest))"
| "pathLoop segments toks = (segments, toks)"

definition parsePath :: "token list \<Rightarrow> astNode \<times> token list" where
  "parsePath toks =
     (case pathLoop [tok_value (current toks)] (tl toks) of
        (segments, rest) \<Rightarrow> (PathExpression segments, rest))"

definition isAdditiveOperator :: "token \<Rightarrow> bool" where
  "isAdditiveOperator t =
     (tok_type t = OPERATOR \<and> tok_value t \<in> {''+'', ''-'', ''*'', ''/''})"

definition isComparisonOperator :: "token \<Rightarrow> bool" where
  "isComparisonOperator t =
     (tok_type t = OPERATOR \<and> tok_value t \<in> {''=='', ''!='', ''>'', ''<'', ''>='', ''<=''})"

text \<open>
  The mutually recursive methods, as one function with the method called as an
  argument.  The first argument bounds the depth of the calls: each call passes on one
  less, and \<open>OutOfFuel\<close> is the answer at depth zero.  \<open>AdditiveLoop\<close>, \<open>UnaryLoop\<close> and
  \<open>ArgsLoop\<close> are the \<^verbatim>\<open>while\<close> loops of \<^verbatim>\<open>parseAdditive\<close>, \<^verbatim>\<open>parseUnary\<close> and
  \<^verbatim>\<open>parseArgs\<close>, with the values the loop has built so far; \<^verbatim>\<open>parseExpression\<close> is
  \<^verbatim>\<open>parsePipe\<close>.  A method answers a node, or the arguments of a call.
\<close>

datatype parserMethod =
    ParsePipe
  | ParseAdditive
  | AdditiveLoop astNode
  | ParseComparison
  | ParseUnary
  | UnaryLoop astNode "chainOperation list"
  | ParsePrimary
  | ParseArgs
  | ArgsLoop "astNode list"

datatype parsed = Node astNode | Args "astNode list"

definition nodeOf :: "parsed \<Rightarrow> astNode" where
  "nodeOf p = (case p of Node a \<Rightarrow> a | Args as \<Rightarrow> LiteralExpression JUndefined)"

definition argsOf :: "parsed \<Rightarrow> astNode list" where
  "argsOf p = (case p of Args as \<Rightarrow> as | Node a \<Rightarrow> [])"

primrec parseMethod :: "nat \<Rightarrow> parserMethod \<Rightarrow> token list \<Rightarrow> parseError + parsed \<times> token list" where
  "parseMethod 0 method toks = Inl OutOfFuel"
| "parseMethod (Suc n) method toks =
     (case method of
        ParsePipe \<Rightarrow>
          (case parseMethod n ParseAdditive toks of
             Inl e \<Rightarrow> Inl e
           | Inr (left, rest) \<Rightarrow>
               (if tok_type (current rest) = PIPE then
                  (case parseMethod n ParseAdditive (tl rest) of
                     Inl e \<Rightarrow> Inl e
                   | Inr (right, rest2) \<Rightarrow>
                       Inr (Node (PipeExpression (nodeOf left) (nodeOf right)), rest2))
                else Inr (left, rest)))
      | ParseAdditive \<Rightarrow>
          (case parseMethod n ParseComparison toks of
             Inl e \<Rightarrow> Inl e
           | Inr (left, rest) \<Rightarrow> parseMethod n (AdditiveLoop (nodeOf left)) rest)
      | AdditiveLoop left \<Rightarrow>
          (if isAdditiveOperator (current toks) then
             (case parseMethod n ParseComparison (tl toks) of
                Inl e \<Rightarrow> Inl e
              | Inr (right, rest) \<Rightarrow>
                  parseMethod n
                    (AdditiveLoop (BinaryExpression (tok_value (current toks)) left (nodeOf right)))
                    rest)
           else Inr (Node left, toks))
      | ParseComparison \<Rightarrow>
          (case parseMethod n ParseUnary toks of
             Inl e \<Rightarrow> Inl e
           | Inr (left, rest) \<Rightarrow>
               (if isComparisonOperator (current rest) then
                  (case parseMethod n ParseUnary (tl rest) of
                     Inl e \<Rightarrow> Inl e
                   | Inr (right, rest2) \<Rightarrow>
                       Inr (Node (BinaryExpression (tok_value (current rest))
                                    (nodeOf left) (nodeOf right)),
                            rest2))
                else Inr (left, rest)))
      | ParseUnary \<Rightarrow>
          (case parseMethod n ParsePrimary toks of
             Inl e \<Rightarrow> Inl e
           | Inr (base, rest) \<Rightarrow> parseMethod n (UnaryLoop (nodeOf base) []) rest)
      | UnaryLoop base operations \<Rightarrow>
          (if tok_type (current toks) = DOT \<and> tok_type (peek 1 toks) = IDENTIFIER then
             (if tok_type (current (tl (tl toks))) = LPAREN then
                (case parseMethod n ParseArgs (tl (tl (tl toks))) of
                   Inl e \<Rightarrow> Inl e
                 | Inr (args, rest) \<Rightarrow>
                     (case expect RPAREN rest of
                        Inl e \<Rightarrow> Inl e
                      | Inr (t, rest2) \<Rightarrow>
                          parseMethod n
                            (UnaryLoop base
                               (operations @
                                  [FunctionCallOp (tok_value (peek 1 toks)) (argsOf args)]))
                            rest2))
              else
                parseMethod n
                  (UnaryLoop base (operations @ [PropertyAccessOp (tok_value (peek 1 toks))]))
                  (tl (tl toks)))
           else if tok_type (current toks) = LBRACKET then
             (case parseMethod n ParsePipe (tl toks) of
                Inl e \<Rightarrow> Inl e
              | Inr (index, rest) \<Rightarrow>
                  (case expect RBRACKET rest of
                     Inl e \<Rightarrow> Inl e
                   | Inr (t, rest2) \<Rightarrow>
                       parseMethod n
                         (UnaryLoop base (operations @ [IndexAccessOp (nodeOf index)])) rest2))
           else if operations \<noteq> [] then Inr (Node (ChainExpression base operations), toks)
           else Inr (Node base, toks))
      | ParsePrimary \<Rightarrow>
          (if tok_type (current toks) = STRING then
             Inr (Node (LiteralExpression (JStr (tok_value (current toks)))), tl toks)
           else if tok_type (current toks) = NUMBER then
             Inr (Node (LiteralExpression (parseFloat (tok_value (current toks)))), tl toks)
           else if tok_type (current toks) = BOOLEAN then
             Inr (Node (LiteralExpression (JBool (tok_value (current toks) = ''true''))), tl toks)
           else if tok_type (current toks) = NULL then
             Inr (Node (LiteralExpression JNull), tl toks)
           else if tok_type (current toks) = LPAREN then
             (case parseMethod n ParsePipe (tl toks) of
                Inl e \<Rightarrow> Inl e
              | Inr (expr, rest) \<Rightarrow>
                  (case expect RPAREN rest of
                     Inl e \<Rightarrow> Inl e
                   | Inr (t, rest2) \<Rightarrow> Inr (expr, rest2)))
           else if tok_type (current toks) = IDENTIFIER then
             (if tok_value (current toks) = ''oql'' \<and> tok_type (peek 1 toks) = COLON then
                (case expect STRING (tl (tl toks)) of
                   Inl e \<Rightarrow> Inl e
                 | Inr (queryTok, rest) \<Rightarrow> Inr (Node (OqlExpression (tok_value queryTok)), rest))
              else if tok_type (peek 1 toks) = LPAREN then
                (case parseMethod n ParseArgs (tl (tl toks)) of
                   Inl e \<Rightarrow> Inl e
                 | Inr (args, rest) \<Rightarrow>
                     (case expect RPAREN rest of
                        Inl e \<Rightarrow> Inl e
                      | Inr (t, rest2) \<Rightarrow>
                          Inr (Node (FunctionCallExpression (tok_value (current toks))
                                       (argsOf args)),
                               rest2)))
              else Inr (Node (fst (parsePath toks)), snd (parsePath toks)))
           else Inl (UnexpectedToken (current toks)))
      | ParseArgs \<Rightarrow>
          (if tok_type (current toks) = RPAREN then Inr (Args [], toks)
           else
             (case parseMethod n ParsePipe toks of
                Inl e \<Rightarrow> Inl e
              | Inr (arg, rest) \<Rightarrow> parseMethod n (ArgsLoop [nodeOf arg]) rest))
      | ArgsLoop args \<Rightarrow>
          (if tok_type (current toks) = COMMA then
             (case parseMethod n ParsePipe (tl toks) of
                Inl e \<Rightarrow> Inl e
              | Inr (arg, rest) \<Rightarrow> parseMethod n (ArgsLoop (args @ [nodeOf arg])) rest)
           else Inr (Args args, toks)))"

text \<open>
  \<^verbatim>\<open>parse\<close>: tokenize, parse one expression, and require the end of the input.  The
  depth allowed grows with the number of tokens; ten levels a token is more than the
  six method calls between two consumed tokens.
\<close>

definition parseTokens :: "token list \<Rightarrow> parseError + astNode" where
  "parseTokens toks =
     (case parseMethod (10 * length toks + 10) ParsePipe toks of
        Inl e \<Rightarrow> Inl e
      | Inr (result, rest) \<Rightarrow>
          (if tok_type (current rest) \<noteq> EOF then Inl (UnexpectedToken (current rest))
           else Inr (nodeOf result)))"

definition parse :: "string \<Rightarrow> parseError + astNode" where
  "parse input = (case tokenize input of Inl e \<Rightarrow> Inl e | Inr toks \<Rightarrow> parseTokens toks)"

text \<open>
  The operator tokens that \<^verbatim>\<open>parseAdditive\<close> and \<^verbatim>\<open>parseComparison\<close> accept, and the
  tokens of an expression of three operands and two operators (or of four operands
  around a pipe), at any positions.
\<close>

definition additiveOperators :: "string set" where
  "additiveOperators = {''+'', ''-'', ''*'', ''/''}"

definition comparisonOperators :: "string set" where
  "comparisonOperators = {''=='', ''!='', ''>'', ''<'', ''>='', ''<=''}"

definition operands3 :: "string \<Rightarrow> string \<Rightarrow> string \<Rightarrow> string \<Rightarrow> string \<Rightarrow> nat list \<Rightarrow> token list" where
  "operands3 a op1 b op2 c ps =
     [mkToken IDENTIFIER a (ps ! 0), mkToken OPERATOR op1 (ps ! 1), mkToken IDENTIFIER b (ps ! 2),
      mkToken OPERATOR op2 (ps ! 3), mkToken IDENTIFIER c (ps ! 4), mkToken EOF [] (ps ! 5)]"

definition pipeOperands :: "string \<Rightarrow> string \<Rightarrow> string \<Rightarrow> string \<Rightarrow> string \<Rightarrow> string \<Rightarrow> nat list \<Rightarrow> token list" where
  "pipeOperands a op1 b c op2 d ps =
     [mkToken IDENTIFIER a (ps ! 0), mkToken OPERATOR op1 (ps ! 1), mkToken IDENTIFIER b (ps ! 2),
      mkToken PIPE ''|'' (ps ! 3),
      mkToken IDENTIFIER c (ps ! 4), mkToken OPERATOR op2 (ps ! 5), mkToken IDENTIFIER d (ps ! 6),
      mkToken EOF [] (ps ! 7)]"

section \<open>Strings and the regular expressions of the template resolver\<close>

text \<open>
  The string methods that the resolver and the block processor call: \<^verbatim>\<open>split\<close> on a
  character, \<^verbatim>\<open>indexOf\<close> from a position, \<^verbatim>\<open>substring\<close>, and \<^verbatim>\<open>replace\<close> with a string
  pattern, which replaces the first occurrence and expands in the replacement the
  patterns \<^verbatim>\<open>$$\<close>, \<^verbatim>\<open>$&\<close>, \<^verbatim>\<open>$`\<close> and \<^verbatim>\<open>$'\<close> (there are no capture groups, so a dollar
  before a digit stays).
\<close>

fun splitLoop :: "char \<Rightarrow> string \<Rightarrow> string \<Rightarrow> string list" where
  "splitLoop sep acc [] = [acc]"
| "splitLoop sep acc (c # cs) =
     (if c = sep then acc # splitLoop sep [] cs else splitLoop sep (acc @ [c]) cs)"

definition splitOn :: "char \<Rightarrow> string \<Rightarrow> string list" where
  "splitOn sep s = splitLoop sep [] s"

fun indexOf :: "string \<Rightarrow> string \<Rightarrow> nat option" where
  "indexOf [] p = (if p = [] then Some 0 else None)"
| "indexOf (c # cs) p =
     (if startsWith (c # cs) p then Some 0 else map_option Suc (indexOf cs p))"

definition indexOfFrom :: "string \<Rightarrow> string \<Rightarrow> nat \<Rightarrow> nat option" where
  "indexOfFrom s p start = map_option (\<lambda>k. start + k) (indexOf (drop start s) p)"

definition substring :: "string \<Rightarrow> nat \<Rightarrow> nat \<Rightarrow> string" where
  "substring s a b = take (b - a) (drop a s)"

fun getSubstitution :: "string \<Rightarrow> string \<Rightarrow> string \<Rightarrow> string \<Rightarrow> string" where
  "getSubstitution matched pre post (c # d # rest) =
     (if c = CHR ''$'' \<and> d = CHR ''$'' then CHR ''$'' # getSubstitution matched pre post rest
      else if c = CHR ''$'' \<and> d = CHR ''&'' then matched @ getSubstitution matched pre post rest
      else if c = CHR ''$'' \<and> d = CHR 0x60 then pre @ getSubstitution matched pre post rest
      else if c = CHR ''$'' \<and> d = CHR 0x27 then post @ getSubstitution matched pre post rest
      else c # getSubstitution matched pre post (d # rest))"
| "getSubstitution matched pre post cs = cs"

definition replaceFirst :: "string \<Rightarrow> string \<Rightarrow> string \<Rightarrow> string" where
  "replaceFirst s pattern replacement =
     (case indexOf s pattern of
        None \<Rightarrow> s
      | Some i \<Rightarrow>
          take i s @
          getSubstitution pattern (take i s) (drop (i + length pattern) s) replacement @
          drop (i + length pattern) s)"

text \<open>
  \<^verbatim>\<open>replace\<close> with a global regular expression that is a literal text, as the block
  processor uses it for \<^verbatim>\<open>{{@index}}\<close>, \<^verbatim>\<open>{{@first}}\<close> and \<^verbatim>\<open>{{@last}}\<close>: every occurrence,
  from left to right without overlap.  The replacements there are a number, \<^verbatim>\<open>true\<close> or
  \<^verbatim>\<open>false\<close>, in which nothing is expanded.  The second argument counts the characters
  of the occurrence being skipped.
\<close>

fun replaceAllLoop :: "string \<Rightarrow> string \<Rightarrow> nat \<Rightarrow> string \<Rightarrow> string" where
  "replaceAllLoop pattern replacement skip [] = []"
| "replaceAllLoop pattern replacement (Suc k) (c # cs) = replaceAllLoop pattern replacement k cs"
| "replaceAllLoop pattern replacement 0 (c # cs) =
     (if startsWith (c # cs) pattern then
        replacement @ replaceAllLoop pattern replacement (length pattern - 1) cs
      else c # replaceAllLoop pattern replacement 0 cs)"

definition replaceAll :: "string \<Rightarrow> string \<Rightarrow> string \<Rightarrow> string" where
  "replaceAll s pattern replacement = replaceAllLoop pattern replacement 0 s"

text \<open>
  The dot of a regular expression matches any character but a line terminator (line
  feed and carriage return, among 8-bit characters).  \<open>lazyGroup\<close> is the group
  \<^verbatim>\<open>(.+?)\<close> followed by \<^verbatim>\<open>\}\}\<close>: the shortest non-empty run of such characters that two
  closing braces follow; it answers the group and the length of what was matched, the
  braces included.
\<close>

definition isLineTerminator :: "char \<Rightarrow> bool" where
  "isLineTerminator c = (of_char c \<in> {10, 13 :: nat})"

fun lazyGroup :: "string \<Rightarrow> string \<Rightarrow> (string \<times> nat) option" where
  "lazyGroup acc [] = None"
| "lazyGroup acc (c # cs) =
     (if isLineTerminator c then None
      else if startsWith cs ''}}'' then Some (acc @ [c], length acc + 3)
      else lazyGroup (acc @ [c]) cs)"

text \<open>
  \<^verbatim>\<open>TEMPLATE_REGEX = /\{\{(.+?)\}\}/g\<close> with \<^verbatim>\<open>matchAll\<close>: the matches from left to right,
  each with its text and its group.  A match is tried at every position that is not
  inside the previous match.
\<close>

definition templateAt :: "string \<Rightarrow> (string \<times> nat) option" where
  "templateAt s =
     (if startsWith s ''{{'' then
        map_option (\<lambda>(g, n). (g, 2 + n)) (lazyGroup [] (drop 2 s))
      else None)"

fun matchAllTemplates :: "nat \<Rightarrow> string \<Rightarrow> (string \<times> string) list" where
  "matchAllTemplates skip [] = []"
| "matchAllTemplates (Suc k) (c # cs) = matchAllTemplates k cs"
| "matchAllTemplates 0 (c # cs) =
     (case templateAt (c # cs) of
        None \<Rightarrow> matchAllTemplates 0 cs
      | Some (g, n) \<Rightarrow> (take n (c # cs), g) # matchAllTemplates (n - 1) cs)"

text \<open>\<^verbatim>\<open>BLOCK_TAG_REGEX = /\{\{#(each|if)\s/\<close> with \<^verbatim>\<open>test\<close>.\<close>

definition blockTagAt :: "string \<Rightarrow> bool" where
  "blockTagAt s =
     ((startsWith s ''{{#each'' \<and> length s > 7 \<and> isSpace (s ! 7)) \<or>
      (startsWith s ''{{#if'' \<and> length s > 5 \<and> isSpace (s ! 5)))"

fun blockTagTest :: "string \<Rightarrow> bool" where
  "blockTagTest [] = False"
| "blockTagTest (c # cs) = (blockTagAt (c # cs) \<or> blockTagTest cs)"

text \<open>
  The opening tags of the block processor, \<^verbatim>\<open>/\{\{#each\s+(.+?)\}\}/g\<close> and
  \<^verbatim>\<open>/\{\{#if\s+(.+?)\}\}/g\<close>, with \<^verbatim>\<open>exec\<close> in a loop: the matches from left to right, each
  with its index, its length and its group.  The white space is greedy: the group is
  tried after all of it, then after one character less, down to one character of
  white space.
\<close>

fun firstSome :: "('a \<Rightarrow> 'b option) \<Rightarrow> 'a list \<Rightarrow> 'b option" where
  "firstSome f [] = None"
| "firstSome f (x # xs) = (case f x of Some y \<Rightarrow> Some y | None \<Rightarrow> firstSome f xs)"

definition openTagAt :: "string \<Rightarrow> string \<Rightarrow> (string \<times> nat) option" where
  "openTagAt tag s =
     (if startsWith s (''{{#'' @ tag) then
        (let rest = drop (3 + length tag) s;
             spaces = length (takeWhile isSpace rest)
         in firstSome
              (\<lambda>k. map_option (\<lambda>(g, n). (g, 3 + length tag + k + n)) (lazyGroup [] (drop k rest)))
              (rev [1 ..< Suc spaces]))
      else None)"

fun openTags :: "string \<Rightarrow> nat \<Rightarrow> nat \<Rightarrow> string \<Rightarrow> (nat \<times> nat \<times> string) list" where
  "openTags tag skip i [] = []"
| "openTags tag (Suc k) i (c # cs) = openTags tag k (Suc i) cs"
| "openTags tag 0 i (c # cs) =
     (case openTagAt tag (c # cs) of
        None \<Rightarrow> openTags tag 0 (Suc i) cs
      | Some (g, n) \<Rightarrow> (i, n, g) # openTags tag (n - 1) (Suc i) cs)"

text \<open>
  \<^verbatim>\<open>/\{\{(currentItem(?:\.[^}]+)?)\}\}/g\<close> with \<^verbatim>\<open>exec\<close> in a loop: \<^verbatim>\<open>{{currentItem}}\<close>, or
  \<^verbatim>\<open>{{currentItem.\<close> and characters other than a closing brace up to \<^verbatim>\<open>}}\<close>; the matches
  from left to right, each with its text and its group.
\<close>

definition itemExprAt :: "string \<Rightarrow> string option" where
  "itemExprAt s =
     (if startsWith s ''{{currentItem'' then
        (let rest = drop 13 s in
         if startsWith rest ''.'' then
           (let run = takeWhile (\<lambda>c. c \<noteq> CHR ''}'') (tl rest) in
            if run \<noteq> [] \<and> startsWith (drop (length run) (tl rest)) ''}}''
            then Some (''currentItem.'' @ run) else None)
         else if startsWith rest ''}}'' then Some ''currentItem''
         else None)
      else None)"

fun itemExprs :: "nat \<Rightarrow> string \<Rightarrow> (string \<times> string) list" where
  "itemExprs skip [] = []"
| "itemExprs (Suc k) (c # cs) = itemExprs k cs"
| "itemExprs 0 (c # cs) =
     (case itemExprAt (c # cs) of
        None \<Rightarrow> itemExprs 0 cs
      | Some g \<Rightarrow> (''{{'' @ g @ ''}}'', g) # itemExprs (length g + 3) cs)"

text \<open>
  \<^verbatim>\<open>/^(.+)\[(\d+)\]$/\<close> on a path segment: a non-empty name without line terminators,
  and a decimal index between brackets at the end.
\<close>

definition arrayMatch :: "string \<Rightarrow> (string \<times> nat) option" where
  "arrayMatch segment =
     (if segment \<noteq> [] \<and> last segment = CHR '']'' then
        (let body = butlast segment;
             digits = rev (takeWhile isDigit (rev body));
             front = take (length body - length digits) body
         in if digits \<noteq> [] \<and> front \<noteq> [] \<and> last front = CHR ''['' \<and> butlast front \<noteq> [] \<and>
               \<not> list_ex isLineTerminator (butlast front)
            then map_option (\<lambda>n. (butlast front, n)) (digitsValue 0 digits)
            else None)
      else None)"

section \<open>Template resolver: values as objects\<close>

text \<open>
  Reading a property: an object answers the value of its field, an array and a string
  their \<^verbatim>\<open>length\<close> and their elements at decimal indices; anything else, and a name that
  is absent, answers \<^verbatim>\<open>undefined\<close>.  Only own properties are modelled (a value of the
  model is data, never a method).  Reading a property of \<^verbatim>\<open>null\<close> or \<^verbatim>\<open>undefined\<close> throws
  a \<^verbatim>\<open>TypeError\<close>: \<open>readProperty\<close> is the read where the source has no guard before it.
\<close>

type_synonym jsError = string

fun lookupField :: "string \<Rightarrow> (string \<times> jsValue) list \<Rightarrow> jsValue" where
  "lookupField k [] = JUndefined"
| "lookupField k ((n, v) # fs) = (if n = k then v else lookupField k fs)"

definition arrayAt :: "jsValue list \<Rightarrow> nat \<Rightarrow> jsValue" where
  "arrayAt xs i = (if i < length xs then xs ! i else JUndefined)"

definition indexOfName :: "string \<Rightarrow> nat option" where
  "indexOfName name =
     (case digitsValue 0 name of
        Some n \<Rightarrow> (if name \<noteq> [] \<and> natToString n = name then Some n else None)
      | None \<Rightarrow> None)"

definition getProperty :: "jsValue \<Rightarrow> string \<Rightarrow> jsValue" where
  "getProperty v name =
     (case v of
        JObj fs \<Rightarrow> lookupField name fs
      | JArr xs \<Rightarrow>
          (if name = ''length'' then JNum (of_nat (length xs))
           else (case indexOfName name of Some i \<Rightarrow> arrayAt xs i | None \<Rightarrow> JUndefined))
      | JStr s \<Rightarrow>
          (if name = ''length'' then JNum (of_nat (length s))
           else (case indexOfName name of
                   Some i \<Rightarrow> (if i < length s then JStr [s ! i] else JUndefined)
                 | None \<Rightarrow> JUndefined))
      | _ \<Rightarrow> JUndefined)"

definition readProperty :: "jsRuntime \<Rightarrow> jsValue \<Rightarrow> string \<Rightarrow> jsError + jsValue" where
  "readProperty rt v name =
     (if isNullish v then
        Inl (''Cannot read properties of '' @ jsString rt v @ '' (reading '' @ [CHR 0x27] @ name @
             [CHR 0x27] @ '')'')
      else Inr (getProperty v name))"

text \<open>
  The object spread \<^verbatim>\<open>{...v, k: x}\<close>: the own enumerable fields of \<open>v\<close>, and the field \<open>k\<close>
  set in its place or added at the end.
\<close>

definition ownFields :: "jsValue \<Rightarrow> (string \<times> jsValue) list" where
  "ownFields v =
     (case v of
        JObj fs \<Rightarrow> fs
      | JArr xs \<Rightarrow> zip (map natToString [0 ..< length xs]) xs
      | JStr s \<Rightarrow> zip (map natToString [0 ..< length s]) (map (\<lambda>c. JStr [c]) s)
      | _ \<Rightarrow> [])"

fun setField :: "string \<Rightarrow> jsValue \<Rightarrow> (string \<times> jsValue) list \<Rightarrow> (string \<times> jsValue) list" where
  "setField k x [] = [(k, x)]"
| "setField k x ((n, v) # fs) = (if n = k then (k, x) # fs else (n, v) # setField k x fs)"

section \<open>Template resolver: the legacy resolver\<close>

text \<open>
  What the resolver takes from outside.  \<open>runtime\<close> holds the conversions of the
  JavaScript runtime, \<open>jsonStringify\<close> is \<^verbatim>\<open>JSON.stringify\<close>, \<open>isoNow\<close> is
  \<^verbatim>\<open>new Date().toISOString()\<close>.  \<open>otherFunctions\<close> are the registered functions besides
  the collection functions modelled below.  \<open>resolveOql\<close> is the method of that name (it
  resolves the templates inside the query, runs the query on the upstream service and
  shapes the rows; it throws when the query fails) and \<open>lookupItem\<close> the method of that
  name (it answers \<^verbatim>\<open>null\<close> on any failure).  \<open>evaluateCondition\<close> is the condition test of
  an \<^verbatim>\<open>{{#if}}\<close> block.  The execution context is the list of the fields of the
  \<^verbatim>\<open>ExecutionContext\<close> object.
\<close>

type_synonym contextObject = "(string \<times> jsValue) list"

record smartValueFunction =
  minArgs :: nat
  maxArgs :: nat
  execute :: "jsValue \<Rightarrow> jsValue list \<Rightarrow> jsError + jsValue"

record resolverServices =
  runtime :: jsRuntime
  jsonStringify :: "jsValue \<Rightarrow> string"
  isoNow :: string
  otherFunctions :: "string \<Rightarrow> smartValueFunction option"
  resolveOql :: "string \<Rightarrow> contextObject \<Rightarrow> jsError + jsValue"
  lookupItem :: "string \<Rightarrow> contextObject \<Rightarrow> jsValue"
  evaluateCondition :: "string \<Rightarrow> contextObject \<Rightarrow> jsError + bool"

text \<open>
  \<^verbatim>\<open>navigatePath\<close>: the loop over the segments, from the value reached so far.  A
  segment \<^verbatim>\<open>attributes\<close> reads \<^verbatim>\<open>attributeValues\<close> when that is truthy, and a segment
  \<^verbatim>\<open>name[3]\<close> reads \<^verbatim>\<open>name\<close> and then, of an array, the element.
\<close>

fun navigateLoop :: "string list \<Rightarrow> jsValue \<Rightarrow> jsValue" where
  "navigateLoop [] cur = cur"
| "navigateLoop (segment # rest) cur =
     (if isNullish cur then JUndefined
      else if segment = ''attributes'' \<and> truthy (getProperty cur ''attributeValues'') then
        navigateLoop rest (getProperty cur ''attributeValues'')
      else
        (case arrayMatch segment of
           Some (name, index) \<Rightarrow>
             navigateLoop rest
               (case getProperty cur name of
                  JArr xs \<Rightarrow> arrayAt xs index
                | next \<Rightarrow> next)
         | None \<Rightarrow> navigateLoop rest (getProperty cur segment)))"

definition navigatePath :: "jsValue \<Rightarrow> string list \<Rightarrow> jsValue" where
  "navigatePath obj path = (if \<not> truthy obj \<or> path = [] then obj else navigateLoop path obj)"

definition resolveTriggerPath :: "jsRuntime \<Rightarrow> string list \<Rightarrow> contextObject \<Rightarrow> jsError + jsValue" where
  "resolveTriggerPath rt path ctx =
     (let trigger = lookupField ''trigger'' ctx in
      if path = [] then Inr trigger
      else if hd path = ''item'' then
        (case readProperty rt trigger ''item'' of
           Inl e \<Rightarrow> Inl e
         | Inr item \<Rightarrow> Inr (navigatePath item (tl path)))
      else if hd path = ''previous'' then
        (case readProperty rt trigger ''previousValues'' of
           Inl e \<Rightarrow> Inl e
         | Inr previous \<Rightarrow> Inr (navigatePath previous (tl path)))
      else if hd path = ''user'' then
        (case readProperty rt trigger ''item'' of
           Inl e \<Rightarrow> Inl e
         | Inr item \<Rightarrow>
             (let createdBy = (if isNullish item then JUndefined else getProperty item ''createdBy'');
                  updatedBy = (if isNullish item then JUndefined else getProperty item ''updatedBy'')
              in Inr (navigatePath (if truthy createdBy then createdBy else updatedBy) (tl path))))
      else if hd path = ''timestamp'' then readProperty rt trigger ''timestamp''
      else if hd path = ''type'' then readProperty rt trigger ''type''
      else if hd path = ''manualParameters'' then
        (case readProperty rt trigger ''manualParameters'' of
           Inl e \<Rightarrow> Inl e
         | Inr parameters \<Rightarrow> Inr (navigatePath parameters (tl path)))
      else if hd path = ''webhookPayload'' then
        (case readProperty rt trigger ''webhookPayload'' of
           Inl e \<Rightarrow> Inl e
         | Inr payload \<Rightarrow> Inr (navigatePath payload (tl path)))
      else if hd path = ''oqlResults'' then readProperty rt trigger ''oqlResults''
      else Inr (navigatePath trigger path))"

definition resolveEnv :: "resolverServices \<Rightarrow> string option \<Rightarrow> jsValue" where
  "resolveEnv sv key =
     (if key = Some ''NOW'' then JStr (isoNow sv)
      else if key = Some ''TODAY'' then JStr (hd (splitOn CHR ''T'' (isoNow sv)))
      else JUndefined)"

definition resolveContextPath :: "string list \<Rightarrow> contextObject \<Rightarrow> jsValue" where
  "resolveContextPath path ctx =
     (if path \<noteq> [] \<and> hd path = ''variables'' then
        navigatePath (lookupField ''variables'' ctx) (tl path)
      else navigatePath (JObj ctx) path)"

definition resolveCurrentItemPath :: "jsRuntime \<Rightarrow> string list \<Rightarrow> contextObject \<Rightarrow> jsError + jsValue" where
  "resolveCurrentItemPath rt path ctx =
     (case (if truthy (lookupField ''currentItem'' ctx) then Inr (lookupField ''currentItem'' ctx)
            else readProperty rt (lookupField ''trigger'' ctx) ''item'') of
        Inl e \<Rightarrow> Inl e
      | Inr item \<Rightarrow>
          (if \<not> truthy item then Inr JUndefined
           else if path = [] then Inr item
           else Inr (navigatePath item path)))"

text \<open>
  \<^verbatim>\<open>resolveActionResult\<close>; \<open>actionIndex\<close> is the match of \<^verbatim>\<open>/^action\[(\d+)\]$/\<close> with the
  index read by \<^verbatim>\<open>parseInt\<close>.
\<close>

definition actionIndex :: "string \<Rightarrow> nat option" where
  "actionIndex segment =
     (if startsWith segment ''action['' \<and> length segment > 8 \<and> last segment = CHR '']'' \<and>
         list_all isDigit (butlast (drop 7 segment))
      then digitsValue 0 (butlast (drop 7 segment))
      else None)"

definition resolveActionResult :: "string list \<Rightarrow> contextObject \<Rightarrow> jsValue" where
  "resolveActionResult path ctx =
     (if length path = 1 \<and> hd path = ''action'' then lookupField ''componentResults'' ctx
      else
        (case actionIndex (hd path) of
           Some index \<Rightarrow>
             (let componentResult = getProperty (lookupField ''componentResults'' ctx) (natToString index)
              in if \<not> truthy componentResult then JUndefined
                 else navigatePath componentResult (tl path))
         | None \<Rightarrow> JUndefined))"

text \<open>
  \<^verbatim>\<open>resolveExpressionLegacy\<close>: an inline query, or the path split at the dots and
  resolved from its root; an unknown root answers the expression between braces.
\<close>

definition resolveExpressionLegacy :: "resolverServices \<Rightarrow> string \<Rightarrow> contextObject \<Rightarrow> jsError + jsValue" where
  "resolveExpressionLegacy sv expression ctx =
     (if startsWith expression ''oql:'' then resolveOql sv (trim (drop 4 expression)) ctx
      else
        (let path = splitOn CHR ''.'' expression; root = hd path in
         if root = ''trigger'' then resolveTriggerPath (runtime sv) (tl path) ctx
         else if root = ''item'' \<or> root = ''currentItem'' then
           resolveCurrentItemPath (runtime sv) (tl path) ctx
         else if root = ''env'' then
           Inr (resolveEnv sv (if length path > 1 then Some (path ! 1) else None))
         else if root = ''context'' then Inr (resolveContextPath (tl path) ctx)
         else if root = ''variables'' then
           Inr (navigatePath (lookupField ''variables'' ctx) (tl path))
         else if root = ''action'' then Inr (resolveActionResult path ctx)
         else Inr (JStr (''{{'' @ expression @ ''}}''))))"

section \<open>Smart values: the function registry\<close>

text \<open>
  The collection functions \<^verbatim>\<open>size\<close>, \<^verbatim>\<open>first\<close>, \<^verbatim>\<open>last\<close>, \<^verbatim>\<open>count\<close>, \<^verbatim>\<open>join\<close> and \<^verbatim>\<open>map\<close> of
  \<^verbatim>\<open>functions/collection-functions.ts\<close>.  \<^verbatim>\<open>map\<close> navigates each element along the dotted
  path, \<^verbatim>\<open>null\<close> for an element that is null or undefined and as soon as the value
  reached is.
\<close>

definition sizeFunction :: smartValueFunction where
  "sizeFunction =
     \<lparr>minArgs = 0, maxArgs = 0,
      execute = (\<lambda>v args.
        case v of
          JArr xs \<Rightarrow> Inr (JNum (of_nat (length xs)))
        | JStr s \<Rightarrow> Inr (JNum (of_nat (length s)))
        | _ \<Rightarrow> Inr (JNum 0))\<rparr>"

definition firstFunction :: smartValueFunction where
  "firstFunction =
     \<lparr>minArgs = 0, maxArgs = 0,
      execute = (\<lambda>v args.
        case v of
          JArr xs \<Rightarrow> (if length xs > 0 then Inr (xs ! 0) else Inr JNull)
        | _ \<Rightarrow> Inr JNull)\<rparr>"

definition lastFunction :: smartValueFunction where
  "lastFunction =
     \<lparr>minArgs = 0, maxArgs = 0,
      execute = (\<lambda>v args.
        case v of
          JArr xs \<Rightarrow> (if length xs > 0 then Inr (xs ! (length xs - 1)) else Inr JNull)
        | _ \<Rightarrow> Inr JNull)\<rparr>"

definition countFunction :: smartValueFunction where
  "countFunction =
     \<lparr>minArgs = 0, maxArgs = 0,
      execute = (\<lambda>v args.
        case v of JArr xs \<Rightarrow> Inr (JNum (of_nat (length xs))) | _ \<Rightarrow> Inr (JNum 0))\<rparr>"

definition joinFunction :: "jsRuntime \<Rightarrow> smartValueFunction" where
  "joinFunction rt =
     \<lparr>minArgs = 0, maxArgs = 1,
      execute = (\<lambda>v args.
        case v of
          JArr xs \<Rightarrow>
            (let delimiter = (if \<not> isNullish (arrayAt args 0) then jsString rt (arrayAt args 0)
                              else '', '')
             in Inr (JStr (joinWith delimiter (map (jsString rt) xs))))
        | _ \<Rightarrow> Inr (JStr (jsString rt v)))\<rparr>"

fun mapNavigate :: "string list \<Rightarrow> jsValue \<Rightarrow> jsValue" where
  "mapNavigate [] cur = cur"
| "mapNavigate (seg # segments) cur =
     (if isNullish cur then JNull
      else if seg = ''attributes'' \<and> truthy (getProperty cur ''attributeValues'') then
        mapNavigate segments (getProperty cur ''attributeValues'')
      else mapNavigate segments (getProperty cur seg))"

definition mapFunction :: "jsRuntime \<Rightarrow> smartValueFunction" where
  "mapFunction rt =
     \<lparr>minArgs = 1, maxArgs = 1,
      execute = (\<lambda>v args.
        case v of
          JArr xs \<Rightarrow>
            (let path = jsString rt (arrayAt args 0) in
             Inr (JArr (map (\<lambda>item. if isNullish item then JNull
                                     else mapNavigate (splitOn CHR ''.'' path) item) xs)))
        | _ \<Rightarrow> Inr (JArr []))\<rparr>"

text \<open>\<^verbatim>\<open>registry.get\<close> on the default registry, where every name is registered once.\<close>

definition registryGet :: "resolverServices \<Rightarrow> string \<Rightarrow> smartValueFunction option" where
  "registryGet sv name =
     (if name = ''size'' then Some sizeFunction
      else if name = ''first'' then Some firstFunction
      else if name = ''last'' then Some lastFunction
      else if name = ''count'' then Some countFunction
      else if name = ''join'' then Some (joinFunction (runtime sv))
      else if name = ''map'' then Some (mapFunction (runtime sv))
      else otherFunctions sv name)"

section \<open>Smart values: the evaluator\<close>

text \<open>
  \<^verbatim>\<open>evaluateBinary\<close> on the values of the two sides.  \<^verbatim>\<open>+\<close> joins strings when either
  side is one; the arithmetic is on \<^verbatim>\<open>Number(v)\<close>, with \<^verbatim>\<open>NaN\<close> when either side is;
  a divisor equal to zero throws.  \<^verbatim>\<open>==\<close> is the abstract equality of JavaScript (two
  arrays or objects are taken to be different ones).
\<close>

definition arithmetic :: "(rat \<Rightarrow> rat \<Rightarrow> rat) \<Rightarrow> jsRuntime \<Rightarrow> jsValue \<Rightarrow> jsValue \<Rightarrow> jsValue" where
  "arithmetic f rt a b =
     (case (jsNumber rt a, jsNumber rt b) of (Some x, Some y) \<Rightarrow> JNum (f x y) | _ \<Rightarrow> JNaN)"

definition isString :: "jsValue \<Rightarrow> bool" where
  "isString v = (case v of JStr s \<Rightarrow> True | _ \<Rightarrow> False)"

definition evaluateBinary :: "jsRuntime \<Rightarrow> string \<Rightarrow> jsValue \<Rightarrow> jsValue \<Rightarrow> jsError + jsValue" where
  "evaluateBinary rt operator left right =
     (if operator = ''+'' then
        (if isString left \<or> isString right then
           Inr (JStr (jsString rt (if isNullish left then JStr [] else left) @
                      jsString rt (if isNullish right then JStr [] else right)))
         else Inr (arithmetic (+) rt left right))
      else if operator = ''-'' then Inr (arithmetic (-) rt left right)
      else if operator = ''*'' then Inr (arithmetic (*) rt left right)
      else if operator = ''/'' then
        (if jsNumber rt right = Some 0 then Inl ''Division by zero''
         else Inr (arithmetic (/) rt left right))
      else if operator = ''=='' then Inr (JBool (abstractEquals rt left right))
      else if operator = ''!='' then Inr (JBool (\<not> abstractEquals rt left right))
      else if operator = ''>'' then Inr (JBool (numCompare (>) rt left right))
      else if operator = ''<'' then Inr (JBool (numCompare (<) rt left right))
      else if operator = ''>='' then Inr (JBool (numCompare (\<ge>) rt left right))
      else if operator = ''<='' then Inr (JBool (numCompare (\<le>) rt left right))
      else Inl (''Unknown operator: '' @ operator))"

text \<open>
  \<^verbatim>\<open>Promise.all\<close> over the evaluations of the arguments: the values, or the first
  failure.
\<close>

fun allResults :: "(jsError + jsValue) list \<Rightarrow> jsError + jsValue list" where
  "allResults [] = Inr []"
| "allResults (r # rs) =
     (case r of
        Inl e \<Rightarrow> Inl e
      | Inr v \<Rightarrow> (case allResults rs of Inl e \<Rightarrow> Inl e | Inr vs \<Rightarrow> Inr (v # vs)))"

text \<open>
  The three operations of a chain on the value reached, given the results of
  evaluating the arguments or the index.  A function call looks the function up before
  its arguments are awaited, and checks their number before it runs.  A property access
  runs the registered function of that name when it takes no argument.
\<close>

definition functionCallOp ::
    "resolverServices \<Rightarrow> string \<Rightarrow> (jsError + jsValue) list \<Rightarrow> jsValue \<Rightarrow> jsError + jsValue" where
  "functionCallOp sv name args v =
     (case registryGet sv name of
        None \<Rightarrow> Inl (''Unknown function: '' @ name)
      | Some fn \<Rightarrow>
          (case allResults args of
             Inl e \<Rightarrow> Inl e
           | Inr resolvedArgs \<Rightarrow>
               (if length resolvedArgs < minArgs fn \<or> length resolvedArgs > maxArgs fn then
                  Inl (''Function '' @ name @ '' expects '' @ natToString (minArgs fn) @ ''-'' @
                       natToString (maxArgs fn) @ '' args, got '' @
                       natToString (length resolvedArgs))
                else execute fn v resolvedArgs)))"

definition propertyAccessOp :: "resolverServices \<Rightarrow> string \<Rightarrow> jsValue \<Rightarrow> jsError + jsValue" where
  "propertyAccessOp sv name v =
     (case (case registryGet sv name of
              Some fn \<Rightarrow> (if minArgs fn = 0 then Some fn else None)
            | None \<Rightarrow> None) of
        Some fn \<Rightarrow> execute fn v []
      | None \<Rightarrow>
          (if isObject v then
             (if name = ''attributes'' \<and> truthy (getProperty v ''attributeValues'') then
                Inr (getProperty v ''attributeValues'')
              else Inr (getProperty v name))
           else Inr JUndefined))"

definition indexAccessOp :: "jsRuntime \<Rightarrow> jsValue \<Rightarrow> jsValue \<Rightarrow> jsValue" where
  "indexAccessOp rt index v =
     (case v of
        JArr xs \<Rightarrow>
          (case jsNumber rt index of
             Some r \<Rightarrow> (if r = of_int \<lfloor>r\<rfloor> \<and> 0 \<le> r then arrayAt xs (nat \<lfloor>r\<rfloor>) else JUndefined)
           | None \<Rightarrow> JUndefined)
      | JObj fs \<Rightarrow> getProperty v (jsString rt index)
      | _ \<Rightarrow> JUndefined)"

text \<open>The operations of a chain applied in turn, up to the first that throws.\<close>

fun applyOperations :: "(jsValue \<Rightarrow> jsError + jsValue) list \<Rightarrow> jsValue \<Rightarrow> jsError + jsValue" where
  "applyOperations [] v = Inr v"
| "applyOperations (operation # rest) v =
     (case operation v of Inl e \<Rightarrow> Inl e | Inr w \<Rightarrow> applyOperations rest w)"

text \<open>
  \<^verbatim>\<open>ExpressionEvaluator.evaluate\<close>, by recursion on the syntax tree.  A path is joined
  with dots and resolved by the legacy resolver; a pipe answers its right side when the
  left one is \<^verbatim>\<open>null\<close>, \<^verbatim>\<open>undefined\<close> or the empty string; the top-level function
  \<^verbatim>\<open>lookup\<close> evaluates its first argument alone.
\<close>

primrec evaluateNode :: "resolverServices \<Rightarrow> contextObject \<Rightarrow> astNode \<Rightarrow> jsError + jsValue"
  and evaluateOperation ::
    "resolverServices \<Rightarrow> contextObject \<Rightarrow> chainOperation \<Rightarrow> jsValue \<Rightarrow> jsError + jsValue" where
  "evaluateNode sv ctx (PathExpression segments) =
     resolveExpressionLegacy sv (joinWith ''.'' segments) ctx"
| "evaluateNode sv ctx (ChainExpression base operations) =
     (case evaluateNode sv ctx base of
        Inl e \<Rightarrow> Inl e
      | Inr v \<Rightarrow> applyOperations (map (evaluateOperation sv ctx) operations) v)"
| "evaluateNode sv ctx (FunctionCallExpression name args) =
     (if name = ''lookup'' then
        (if length args < 1 then Inl ''lookup() requires at least 1 argument (item key)''
         else
           (case hd (map (evaluateNode sv ctx) args) of
              Inl e \<Rightarrow> Inl e
            | Inr key \<Rightarrow> Inr (lookupItem sv (jsString (runtime sv) key) ctx)))
      else
        (case registryGet sv name of
           Some fn \<Rightarrow>
             (case allResults (map (evaluateNode sv ctx) args) of
                Inl e \<Rightarrow> Inl e
              | Inr resolvedArgs \<Rightarrow> execute fn JNull resolvedArgs)
         | None \<Rightarrow> Inl (''Unknown function: '' @ name)))"
| "evaluateNode sv ctx (LiteralExpression v) = Inr v"
| "evaluateNode sv ctx (PipeExpression left right) =
     (case evaluateNode sv ctx left of
        Inl e \<Rightarrow> Inl e
      | Inr l \<Rightarrow>
          (if l = JNull \<or> l = JUndefined \<or> l = JStr [] then evaluateNode sv ctx right
           else Inr l))"
| "evaluateNode sv ctx (BinaryExpression operator left right) =
     (case evaluateNode sv ctx left of
        Inl e \<Rightarrow> Inl e
      | Inr l \<Rightarrow>
          (case evaluateNode sv ctx right of
             Inl e \<Rightarrow> Inl e
           | Inr r \<Rightarrow> evaluateBinary (runtime sv) operator l r))"
| "evaluateNode sv ctx (OqlExpression query) = resolveOql sv query ctx"
| "evaluateOperation sv ctx (FunctionCallOp name args) v =
     functionCallOp sv name (map (evaluateNode sv ctx) args) v"
| "evaluateOperation sv ctx (PropertyAccessOp name) v = propertyAccessOp sv name v"
| "evaluateOperation sv ctx (IndexAccessOp index) v =
     (case evaluateNode sv ctx index of
        Inl e \<Rightarrow> Inl e
      | Inr i \<Rightarrow> Inr (indexAccessOp (runtime sv) i v))"

section \<open>Template resolver: one expression\<close>

text \<open>
  \<^verbatim>\<open>resolveExpressionSmart\<close>: the \<^verbatim>\<open>try\<close> block parses the expression and evaluates the
  tree; the \<^verbatim>\<open>catch\<close> clause, whatever was thrown in either step, answers with the legacy
  resolver.
\<close>

definition resolveExpressionSmart :: "resolverServices \<Rightarrow> string \<Rightarrow> contextObject \<Rightarrow> jsError + jsValue" where
  "resolveExpressionSmart sv expression ctx =
     (case parse expression of
        Inl err \<Rightarrow> resolveExpressionLegacy sv expression ctx
      | Inr ast \<Rightarrow>
          (case evaluateNode sv ctx ast of
             Inl err \<Rightarrow> resolveExpressionLegacy sv expression ctx
           | Inr v \<Rightarrow> Inr v))"

text \<open>\<^verbatim>\<open>stringify\<close>, of the resolver and of the block processor alike.\<close>

definition stringify :: "resolverServices \<Rightarrow> jsValue \<Rightarrow> string" where
  "stringify sv v =
     (case v of
        JNull \<Rightarrow> []
      | JUndefined \<Rightarrow> []
      | JStr s \<Rightarrow> s
      | JNum r \<Rightarrow> jsString (runtime sv) v
      | JNaN \<Rightarrow> jsString (runtime sv) v
      | JBool b \<Rightarrow> jsString (runtime sv) v
      | _ \<Rightarrow> jsonStringify sv v)"

section \<open>Smart values: the block processor\<close>

text \<open>
  The search of \<^verbatim>\<open>processInnermostEach\<close> and \<^verbatim>\<open>processInnermostIf\<close>: among the opening
  tags that have a closing tag after them and no nested opening tag in between, the
  last one; with the start and the end of the opening tag, the expression, and the
  index of the closing tag.
\<close>

record innermostBlock =
  openStart :: nat
  openEnd :: nat
  expression :: string
  closeIndex :: nat

definition blockOf :: "string \<Rightarrow> string \<Rightarrow> string \<Rightarrow> nat \<times> nat \<times> string \<Rightarrow> innermostBlock option" where
  "blockOf template closeTag nested m =
     (case m of (start, n, g) \<Rightarrow>
        (case indexOfFrom template closeTag (start + n) of
           None \<Rightarrow> None
         | Some close \<Rightarrow>
             (if \<not> includesStr (substring template (start + n) close) nested then
                Some \<lparr>openStart = start, openEnd = start + n, expression = trim g,
                      closeIndex = close\<rparr>
              else None)))"

definition lastInnermost :: "string \<Rightarrow> string \<Rightarrow> string \<Rightarrow> string \<Rightarrow> innermostBlock option" where
  "lastInnermost tag closeTag nested template =
     (case List.map_filter (blockOf template closeTag nested) (openTags tag 0 0 template) of
        [] \<Rightarrow> None
      | b # bs \<Rightarrow> Some (last (b # bs)))"

text \<open>
  The body of an \<^verbatim>\<open>{{#each}}\<close> block for the item at index \<open>i\<close> of \<open>n\<close>.  The child context
  has \<^verbatim>\<open>currentItem\<close> and the variables \<^verbatim>\<open>@index\<close>, \<^verbatim>\<open>@first\<close>, \<^verbatim>\<open>@last\<close>.  The three tags of
  the body are replaced, then each \<^verbatim>\<open>{{currentItem...}}\<close> of the body so expanded is
  resolved in the child context and replaced, at its first occurrence, in the text
  resolved so far.
\<close>

definition childContext :: "contextObject \<Rightarrow> jsValue \<Rightarrow> nat \<Rightarrow> nat \<Rightarrow> contextObject" where
  "childContext ctx item i n =
     setField ''variables''
       (JObj (setField ''@last'' (JBool (i = n - 1))
               (setField ''@first'' (JBool (i = 0))
                 (setField ''@index'' (JNum (of_nat i))
                   (ownFields (lookupField ''variables'' ctx))))))
       (setField ''currentItem'' item ctx)"

definition boolToString :: "bool \<Rightarrow> string" where
  "boolToString b = (if b then ''true'' else ''false'')"

definition expandBody :: "string \<Rightarrow> nat \<Rightarrow> nat \<Rightarrow> string" where
  "expandBody body i n =
     replaceAll
       (replaceAll (replaceAll body ''{{@index}}'' (natToString i))
          ''{{@first}}'' (boolToString (i = 0)))
       ''{{@last}}'' (boolToString (i = n - 1))"

fun resolveItemExprs ::
    "resolverServices \<Rightarrow> contextObject \<Rightarrow> (string \<times> string) list \<Rightarrow> string \<Rightarrow> jsError + string" where
  "resolveItemExprs sv childCtx [] resolved = Inr resolved"
| "resolveItemExprs sv childCtx ((fullMatch, expr) # rest) resolved =
     (case resolveExpressionSmart sv (trim expr) childCtx of
        Inl e \<Rightarrow> Inl e
      | Inr v \<Rightarrow>
          resolveItemExprs sv childCtx rest (replaceFirst resolved fullMatch (stringify sv v)))"

definition expandItem ::
    "resolverServices \<Rightarrow> contextObject \<Rightarrow> string \<Rightarrow> nat \<Rightarrow> nat \<Rightarrow> jsValue \<Rightarrow> jsError + string" where
  "expandItem sv ctx body n i item =
     resolveItemExprs sv (childContext ctx item i n) (itemExprs 0 (expandBody body i n))
       (expandBody body i n)"

fun expandItems ::
    "resolverServices \<Rightarrow> contextObject \<Rightarrow> string \<Rightarrow> nat \<Rightarrow> nat \<Rightarrow> jsValue list \<Rightarrow> jsError + string list" where
  "expandItems sv ctx body n i [] = Inr []"
| "expandItems sv ctx body n i (item # rest) =
     (case expandItem sv ctx body n i item of
        Inl e \<Rightarrow> Inl e
      | Inr part \<Rightarrow>
          (case expandItems sv ctx body n (Suc i) rest of
             Inl e \<Rightarrow> Inl e
           | Inr parts \<Rightarrow> Inr (part # parts)))"

text \<open>
  \<^verbatim>\<open>processInnermostEach\<close>: \<open>None\<close> when there is no block; otherwise the template with
  the block replaced by the bodies of the items.  A collection that is not an array is
  one item when it is truthy and none otherwise.
\<close>

definition processInnermostEach ::
    "resolverServices \<Rightarrow> string \<Rightarrow> contextObject \<Rightarrow> jsError + string option" where
  "processInnermostEach sv template ctx =
     (case lastInnermost ''each'' ''{{/each}}'' ''{{#each'' template of
        None \<Rightarrow> Inr None
      | Some b \<Rightarrow>
          (case resolveExpressionSmart sv (expression b) ctx of
             Inl e \<Rightarrow> Inl e
           | Inr collection \<Rightarrow>
               (let items = (case collection of
                               JArr xs \<Rightarrow> xs
                             | _ \<Rightarrow> (if truthy collection then [collection] else []))
                in case expandItems sv ctx (substring template (openEnd b) (closeIndex b))
                          (length items) 0 items of
                     Inl e \<Rightarrow> Inl e
                   | Inr parts \<Rightarrow>
                       Inr (Some (take (openStart b) template @ concat parts @
                                  drop (closeIndex b + length ''{{/each}}'') template)))))"

text \<open>
  \<^verbatim>\<open>processInnermostIf\<close>: the body is split at the first \<^verbatim>\<open>{{else}}\<close>, and the condition
  selects the part that replaces the block.
\<close>

definition processInnermostIf ::
    "resolverServices \<Rightarrow> string \<Rightarrow> contextObject \<Rightarrow> jsError + string option" where
  "processInnermostIf sv template ctx =
     (case lastInnermost ''if'' ''{{/if}}'' ''{{#if'' template of
        None \<Rightarrow> Inr None
      | Some b \<Rightarrow>
          (let body = substring template (openEnd b) (closeIndex b);
               thenBody = (case indexOf body ''{{else}}'' of
                             Some k \<Rightarrow> take k body
                           | None \<Rightarrow> body);
               elseBody = (case indexOf body ''{{else}}'' of
                             Some k \<Rightarrow> drop (k + length ''{{else}}'') body
                           | None \<Rightarrow> [])
           in case evaluateCondition sv (expression b) ctx of
                Inl e \<Rightarrow> Inl e
              | Inr conditionResult \<Rightarrow>
                  Inr (Some (take (openStart b) template @
                             (if conditionResult then thenBody else elseBody) @
                             drop (closeIndex b + length ''{{/if}}'') template))))"

text \<open>
  \<^verbatim>\<open>processBlocks\<close>: the loop runs while a block was processed, at most
  \<^verbatim>\<open>MAX_ITERATIONS\<close> times; its first argument is the number of turns left.
\<close>

definition MAX_ITERATIONS :: nat where
  "MAX_ITERATIONS = 100"

fun processBlocksLoop ::
    "nat \<Rightarrow> resolverServices \<Rightarrow> string \<Rightarrow> contextObject \<Rightarrow> jsError + string" where
  "processBlocksLoop 0 sv result ctx = Inr result"
| "processBlocksLoop (Suc k) sv result ctx =
     (case processInnermostEach sv result ctx of
        Inl e \<Rightarrow> Inl e
      | Inr (Some eachProcessed) \<Rightarrow> processBlocksLoop k sv eachProcessed ctx
      | Inr None \<Rightarrow>
          (case processInnermostIf sv result ctx of
             Inl e \<Rightarrow> Inl e
           | Inr (Some ifProcessed) \<Rightarrow> processBlocksLoop k sv ifProcessed ctx
           | Inr None \<Rightarrow> Inr result))"

definition processBlocks :: "resolverServices \<Rightarrow> string \<Rightarrow> contextObject \<Rightarrow> jsError + string" where
  "processBlocks sv template ctx = processBlocksLoop MAX_ITERATIONS sv template ctx"

section \<open>Template resolver: a string\<close>

text \<open>
  \<^verbatim>\<open>resolveString\<close>.  The blocks are processed when the template has a block tag; then
  every \<^verbatim>\<open>{{expression}}\<close> of the processed text, block tags and \<^verbatim>\<open>else\<close> apart, is
  resolved and replaced, at its first occurrence, in the result so far.
\<close>

fun resolveMatches ::
    "resolverServices \<Rightarrow> contextObject \<Rightarrow> (string \<times> string) list \<Rightarrow> string \<Rightarrow> jsError + string" where
  "resolveMatches sv ctx [] result = Inr result"
| "resolveMatches sv ctx ((fullMatch, g) # rest) result =
     (if startsWith (trim g) ''#'' \<or> startsWith (trim g) ''/'' \<or> trim g = ''else'' then
        resolveMatches sv ctx rest result
      else
        (case resolveExpressionSmart sv (trim g) ctx of
           Inl e \<Rightarrow> Inl e
         | Inr resolved \<Rightarrow>
             resolveMatches sv ctx rest (replaceFirst result fullMatch (stringify sv resolved))))"

definition resolveString :: "resolverServices \<Rightarrow> string \<Rightarrow> contextObject \<Rightarrow> jsError + string" where
  "resolveString sv template ctx =
     (if \<not> includesStr template ''{{'' then Inr template
      else
        (case (if blockTagTest template then processBlocks sv template ctx else Inr template) of
           Inl e \<Rightarrow> Inl e
         | Inr processed \<Rightarrow> resolveMatches sv ctx (matchAllTemplates 0 processed) processed))"

text \<open>
  An element of a collection that is an object whose field \<^verbatim>\<open>key\<close> is a string without
  a dollar sign and without an opening brace, and that string.  A context and services
  for concrete evaluations: \<^verbatim>\<open>variables.items\<close> holds two such elements, no further
  function is registered, and inline queries fail.
\<close>

definition keyOf :: "jsValue \<Rightarrow> string" where
  "keyOf item = (case getProperty item ''key'' of JStr k \<Rightarrow> k | _ \<Rightarrow> [])"

definition plainKeyed :: "jsValue \<Rightarrow> bool" where
  "plainKeyed item =
     (case item of
        JObj fs \<Rightarrow>
          (case lookupField ''key'' fs of
             JStr k \<Rightarrow> CHR ''$'' \<notin> set k \<and> CHR ''{'' \<notin> set k
           | _ \<Rightarrow> False)
      | _ \<Rightarrow> False)"

definition exampleResolver :: resolverServices where
  "exampleResolver =
     \<lparr>runtime = exampleRuntime,
      jsonStringify = (\<lambda>v. ''?''),
      isoNow = ''2026-01-02T03:04:05.000Z'',
      otherFunctions = (\<lambda>name. None),
      resolveOql = (\<lambda>query ctx. Inl ''OQL template error: unreachable''),
      lookupItem = (\<lambda>k ctx. JNull),
      evaluateCondition = (\<lambda>e ctx. Inr False)\<rparr>"

definition exampleItems :: "jsValue list" where
  "exampleItems = [JObj [(''key'', JStr ''a'')], JObj [(''key'', JStr ''b'')]]"

definition exampleContext :: contextObject where
  "exampleContext =
     [(''trigger'', JObj [(''type'', JStr ''manual'')]),
      (''variables'', JObj [(''items'', JArr exampleItems)]),
      (''componentResults'', JArr [])]"

section \<open>Properties of the component walk\<close>











text \<open>One turn of the loop of \<^verbatim>\<open>executeComponents\<close>, without the local bindings.\<close>

lemma executeComponents_Cons:
  "executeComponent sv cmpt ctx w = (outcome, ctx1, w1) \<Longrightarrow>
   executeComponents sv (cmpt # rest) ctx w =
     (if stopsChain cmpt (catchResult cmpt outcome)
      then ([catchResult cmpt outcome],
            ctx1\<lparr>componentResults := componentResults ctx1 @ [catchResult cmpt outcome]\<rparr>, w1)
      else (catchResult cmpt outcome #
              fst (executeComponents sv rest
                    (ctx1\<lparr>componentResults := componentResults ctx1 @ [catchResult cmpt outcome]\<rparr>)
                    w1),
            snd (executeComponents sv rest
                    (ctx1\<lparr>componentResults := componentResults ctx1 @ [catchResult cmpt outcome]\<rparr>)
                    w1)))"
  by (simp add: Let_def split: prod.splits)



section \<open>Sequential walk: where the loop stops\<close>

lemma ranToEnd_Nil: "ranToEnd [] rs = (rs = [])"
  by (simp add: ranToEnd_def)

lemma ranToEnd_Cons_stop: "stopsChain c r \<Longrightarrow> \<not> ranToEnd (c # pre) [r]"
  by (cases pre) (simp_all add: ranToEnd_def)

lemma ranToEnd_Cons_go:
  "\<not> stopsChain c r \<Longrightarrow> ranToEnd (c # pre) (r # rs) = ranToEnd pre rs"
  by (cases pre; cases rs) (simp_all add: ranToEnd_def)

lemma executeComponents_append:
  "executeComponents sv pre ctx w = (rs, ctx1, w1) \<Longrightarrow>
   executeComponents sv (pre @ post) ctx w =
     (if ranToEnd pre rs
      then (rs @ fst (executeComponents sv post ctx1 w1),
            snd (executeComponents sv post ctx1 w1))
      else (rs, ctx1, w1))"
proof (induction pre arbitrary: ctx w rs ctx1 w1)
  case Nil
  then show ?case by (simp add: ranToEnd_Nil)
next
  case (Cons c pre)
  obtain outcome ctxA wA where ec: "executeComponent sv c ctx w = (outcome, ctxA, wA)"
    by (cases "executeComponent sv c ctx w") auto
  let ?r = "catchResult c outcome"
  let ?ctx2 = "ctxA\<lparr>componentResults := componentResults ctxA @ [?r]\<rparr>"
  show ?case
  proof (cases "stopsChain c ?r")
    case True
    with Cons.prems have "rs = [?r]" "ctx1 = ?ctx2" "w1 = wA"
      unfolding executeComponents_Cons[OF ec] by auto
    with True show ?thesis
      unfolding append_Cons executeComponents_Cons[OF ec]
      by (simp add: ranToEnd_Cons_stop)
  next
    case False
    obtain rs' where E: "executeComponents sv pre ?ctx2 wA = (rs', ctx1, w1)" and rs: "rs = ?r # rs'"
      using Cons.prems False unfolding executeComponents_Cons[OF ec]
      by (cases "executeComponents sv pre ?ctx2 wA") simp
    show ?thesis
      unfolding append_Cons executeComponents_Cons[OF ec] Cons.IH[OF E] rs
      using False by (simp add: ranToEnd_Cons_go)
  qed
qed

text \<open>
  Claim C3.  In a sequential walk that has reached a component \<open>cmpt\<close> (the walk over the
  components \<open>pre\<close> before it ran to the end): if \<open>cmpt\<close> is a condition whose evaluation
  returns false, its result has status \<^verbatim>\<open>skipped\<close> and it is the last result of the
  sequence, the walk ending in the state the evaluation left, so no later sibling is
  executed; if \<open>cmpt\<close> is an action whose result has status \<^verbatim>\<open>failed\<close>, the walk ends
  in the same way unless its \<^verbatim>\<open>continueOnError\<close> flag is true, in which case the walk
  goes on with the remaining siblings \<open>rest\<close>.
\<close>

theorem walk_stops_at_skipped_condition_and_failed_action:
  assumes pre: "executeComponents sv pre ctx w = (rs, ctx1, w1)" and ran: "ranToEnd pre rs"
  shows
    "(comp_type cmpt = ''condition'' \<and> condition cmpt = Some c \<and> evaluate sv c ctx1 w1 = (False, w2) \<longrightarrow>
        executeComponents sv (pre @ cmpt # rest) ctx w =
          (rs @ [ComponentResult (comp_id cmpt) ''condition'' None skipped None None],
           ctx1\<lparr>componentResults := componentResults ctx1 @
                   [ComponentResult (comp_id cmpt) ''condition'' None skipped None None]\<rparr>,
           w2)) \<and>
     (comp_type cmpt = ''action'' \<and> executeComponent sv cmpt ctx1 w1 = (outcome, ctx2, w3) \<and>
      status (catchResult cmpt outcome) = failed \<longrightarrow>
        executeComponents sv (pre @ cmpt # rest) ctx w =
          (if (\<exists>ac. action cmpt = Some ac \<and> continueOnError ac = Some True)
           then (rs @ catchResult cmpt outcome #
                   fst (executeComponents sv rest
                          (ctx2\<lparr>componentResults := componentResults ctx2 @ [catchResult cmpt outcome]\<rparr>) w3),
                 snd (executeComponents sv rest
                          (ctx2\<lparr>componentResults := componentResults ctx2 @ [catchResult cmpt outcome]\<rparr>) w3))
           else (rs @ [catchResult cmpt outcome],
                 ctx2\<lparr>componentResults := componentResults ctx2 @ [catchResult cmpt outcome]\<rparr>,
                 w3)))"
proof (intro conjI impI)
  assume a: "comp_type cmpt = ''condition'' \<and> condition cmpt = Some c \<and> evaluate sv c ctx1 w1 = (False, w2)"
  let ?R = "ComponentResult (comp_id cmpt) ''condition'' None skipped None None"
  have ec: "executeComponent sv cmpt ctx1 w1 = (Inr ?R, ctx1, w2)"
    using a by (cases cmpt) (simp add: executeConditionComponent_def)
  have st: "stopsChain cmpt (catchResult cmpt (Inr ?R))"
    using a by (simp add: stopsChain_def catchResult_def)
  show "executeComponents sv (pre @ cmpt # rest) ctx w =
          (rs @ [?R], ctx1\<lparr>componentResults := componentResults ctx1 @ [?R]\<rparr>, w2)"
    unfolding executeComponents_append[OF pre] executeComponents_Cons[OF ec]
    using ran st by (simp add: catchResult_def)
next
  assume b: "comp_type cmpt = ''action'' \<and> executeComponent sv cmpt ctx1 w1 = (outcome, ctx2, w3) \<and>
      status (catchResult cmpt outcome) = failed"
  then have ec: "executeComponent sv cmpt ctx1 w1 = (outcome, ctx2, w3)" by simp
  define flag where "flag = (\<exists>ac. action cmpt = Some ac \<and> continueOnError ac = Some True)"
  have st: "stopsChain cmpt (catchResult cmpt outcome) = (\<not> flag)"
    using b by (simp add: stopsChain_def flag_def split: option.splits)
  show "executeComponents sv (pre @ cmpt # rest) ctx w =
          (if (\<exists>ac. action cmpt = Some ac \<and> continueOnError ac = Some True)
           then (rs @ catchResult cmpt outcome #
                   fst (executeComponents sv rest
                          (ctx2\<lparr>componentResults := componentResults ctx2 @ [catchResult cmpt outcome]\<rparr>) w3),
                 snd (executeComponents sv rest
                          (ctx2\<lparr>componentResults := componentResults ctx2 @ [catchResult cmpt outcome]\<rparr>) w3))
           else (rs @ [catchResult cmpt outcome],
                 ctx2\<lparr>componentResults := componentResults ctx2 @ [catchResult cmpt outcome]\<rparr>,
                 w3))"
    unfolding executeComponents_append[OF pre] executeComponents_Cons[OF ec] st flag_def[symmetric]
    using ran by (cases flag) simp_all
qed

theorem walk_stops_at_skipped_condition_and_failed_action_witness:
  "executeComponents exampleServices
     ([conditionComponent ''c1'' True] @ conditionComponent ''c2'' False # [actionComponent ''a1'' None])
     \<lparr>currentItem = None, componentResults = []\<rparr> 0
   = ([ComponentResult ''c1'' ''condition'' None success None None,
       ComponentResult ''c2'' ''condition'' None skipped None None],
      \<lparr>currentItem = None,
       componentResults = [ComponentResult ''c1'' ''condition'' None success None None,
                           ComponentResult ''c2'' ''condition'' None skipped None None]\<rparr>,
      2)
   \<and> executeComponents exampleServices
     ([conditionComponent ''c1'' True] @ actionComponent ''a1'' None # [conditionComponent ''c2'' True])
     \<lparr>currentItem = None, componentResults = []\<rparr> 0
   = ([ComponentResult ''c1'' ''condition'' None success None None,
       ComponentResult ''a1'' ''action'' (Some ''log'') failed (Some ''boom'') None],
      \<lparr>currentItem = None,
       componentResults = [ComponentResult ''c1'' ''condition'' None success None None,
                           ComponentResult ''a1'' ''action'' (Some ''log'') failed (Some ''boom'') None]\<rparr>,
      2)
   \<and> executeComponents exampleServices
     ([conditionComponent ''c1'' True] @ actionComponent ''a1'' (Some True) # [conditionComponent ''c2'' True])
     \<lparr>currentItem = None, componentResults = []\<rparr> 0
   = ([ComponentResult ''c1'' ''condition'' None success None None,
       ComponentResult ''a1'' ''action'' (Some ''log'') failed (Some ''boom'') None,
       ComponentResult ''c2'' ''condition'' None success None None],
      \<lparr>currentItem = None,
       componentResults = [ComponentResult ''c1'' ''condition'' None success None None,
                           ComponentResult ''a1'' ''action'' (Some ''log'') failed (Some ''boom'') None,
                           ComponentResult ''c2'' ''condition'' None success None None]\<rparr>,
      3)"
proof -
  let ?ctx0 = "\<lparr>currentItem = None, componentResults = []\<rparr> :: unit executionContext"
  let ?r1 = "ComponentResult ''c1'' ''condition'' None success None None"
  let ?ctx1 = "\<lparr>currentItem = None, componentResults = [?r1]\<rparr> :: unit executionContext"
  have pre: "executeComponents exampleServices [conditionComponent ''c1'' True] ?ctx0 0 = ([?r1], ?ctx1, 1)"
    by (simp add: exampleServices_def conditionComponent_def executeConditionComponent_def
          catchResult_def stopsChain_def Let_def)
  have ran: "ranToEnd [conditionComponent ''c1'' True] [?r1]"
    by (simp add: ranToEnd_def conditionComponent_def stopsChain_def)
  note step = walk_stops_at_skipped_condition_and_failed_action[OF pre ran]
  have A: "comp_type (conditionComponent ''c2'' False) = ''condition'' \<and>
           condition (conditionComponent ''c2'' False) = Some False \<and>
           evaluate exampleServices False ?ctx1 1 = (False, 2)"
    by (simp add: exampleServices_def conditionComponent_def)
  have B: "comp_type (actionComponent ''a1'' None) = ''action'' \<and>
           executeComponent exampleServices (actionComponent ''a1'' None) ?ctx1 1 =
             (Inr (ComponentResult ''a1'' ''action'' (Some ''log'') failed (Some ''boom'') None),
              ?ctx1, 2) \<and>
           status (catchResult (actionComponent ''a1'' None)
                     (Inr (ComponentResult ''a1'' ''action'' (Some ''log'') failed (Some ''boom'') None)))
             = failed"
    by (simp add: exampleServices_def actionComponent_def executeActionComponent_def catchResult_def)
  have C: "comp_type (actionComponent ''a1'' (Some True)) = ''action'' \<and>
           executeComponent exampleServices (actionComponent ''a1'' (Some True)) ?ctx1 1 =
             (Inr (ComponentResult ''a1'' ''action'' (Some ''log'') failed (Some ''boom'') None),
              ?ctx1, 2) \<and>
           status (catchResult (actionComponent ''a1'' (Some True))
                     (Inr (ComponentResult ''a1'' ''action'' (Some ''log'') failed (Some ''boom'') None)))
             = failed"
    by (simp add: exampleServices_def actionComponent_def executeActionComponent_def catchResult_def)
  have 1: "executeComponents exampleServices
     ([conditionComponent ''c1'' True] @ conditionComponent ''c2'' False # [actionComponent ''a1'' None])
     ?ctx0 0
   = ([?r1, ComponentResult ''c2'' ''condition'' None skipped None None],
      \<lparr>currentItem = None,
       componentResults = [?r1, ComponentResult ''c2'' ''condition'' None skipped None None]\<rparr>,
      2)"
    using step[THEN conjunct1, rule_format, OF A] by (simp add: conditionComponent_def)
  have 2: "executeComponents exampleServices
     ([conditionComponent ''c1'' True] @ actionComponent ''a1'' None # [conditionComponent ''c2'' True])
     ?ctx0 0
   = ([?r1, ComponentResult ''a1'' ''action'' (Some ''log'') failed (Some ''boom'') None],
      \<lparr>currentItem = None,
       componentResults = [?r1, ComponentResult ''a1'' ''action'' (Some ''log'') failed (Some ''boom'') None]\<rparr>,
      2)"
    using step[THEN conjunct2, rule_format, OF B, of "[conditionComponent ''c2'' True]"]
    by (simp add: actionComponent_def catchResult_def)
  have 3: "executeComponents exampleServices
     ([conditionComponent ''c1'' True] @ actionComponent ''a1'' (Some True) # [conditionComponent ''c2'' True])
     ?ctx0 0
   = ([?r1, ComponentResult ''a1'' ''action'' (Some ''log'') failed (Some ''boom'') None,
       ComponentResult ''c2'' ''condition'' None success None None],
      \<lparr>currentItem = None,
       componentResults = [?r1, ComponentResult ''a1'' ''action'' (Some ''log'') failed (Some ''boom'') None,
                           ComponentResult ''c2'' ''condition'' None success None None]\<rparr>,
      3)"
    using step[THEN conjunct2, rule_format, OF C, of "[conditionComponent ''c2'' True]"]
    by (simp add: actionComponent_def catchResult_def exampleServices_def conditionComponent_def
          executeConditionComponent_def stopsChain_def Let_def)
  show ?thesis using 1 2 3 by simp
qed

section \<open>Properties of the concurrency gate\<close>

lemma gateInv_new: "0 < mx \<Longrightarrow> gateInv mx newExecutor"
  by (simp add: gateInv_def newExecutor_def)

lemma gateInv_start_fields:
  "activeExecutions (runExecution_start item st) = activeExecutions st + 1"
  "executionQueue (runExecution_start item st) = executionQueue st"
  "inFlight (runExecution_start item st) = inFlight st @ [length (executions st)]"
  "arrived (runExecution_start item st) = arrived st"
  "admitted (runExecution_start item st) = admitted st @ [item]"
  by (simp_all add: runExecution_start_def)

lemma gateInv_executeAutomation:
  assumes "gateInv mx st"
  shows "gateInv mx (executeAutomation mx item st)"
proof (cases "mx \<le> activeExecutions st")
  case True
  with assms show ?thesis by (simp add: gateInv_def executeAutomation_def)
next
  case False
  with assms have q: "executionQueue st = []" and a: "admitted st = arrived st"
    and l: "length (inFlight st) \<le> activeExecutions st"
    unfolding gateInv_def by auto
  from False q a l show ?thesis
    by (simp add: gateInv_def executeAutomation_def gateInv_start_fields)
qed

lemma drainQueue_inv: "drainPre mx st \<Longrightarrow> gateInv mx (drainQueue mx st)"
proof (induction mx st rule: drainQueue.induct)
  case (1 mx st)
  show ?case
  proof (cases "executionQueue st \<noteq> [] \<and> activeExecutions st < mx")
    case True
    let ?st' = "runExecution_start (hd (executionQueue st)) (st\<lparr>executionQueue := tl (executionQueue st)\<rparr>)"
    have "drainPre mx ?st'"
      using "1.prems" True by (cases "executionQueue st") (simp_all add: drainPre_def gateInv_start_fields)
    then have "gateInv mx (drainQueue mx ?st')" using "1.IH"[OF True] by simp
    then show ?thesis using True by (subst drainQueue.simps) simp
  next
    case False
    then show ?thesis using "1.prems"
      by (subst drainQueue.simps) (auto simp add: drainPre_def gateInv_def)
  qed
qed

lemma gateInv_step: "gateInv mx st \<Longrightarrow> gateInv mx (executorStep mx st ev)"
proof (cases ev)
  case (Execute item)
  assume "gateInv mx st"
  then show ?thesis using Execute by (simp add: gateInv_executeAutomation)
next
  case (Finish rid final)
  assume inv: "gateInv mx st"
  show ?thesis
  proof (cases "rid \<in> set (inFlight st)")
    case True
    then have "inFlight st \<noteq> []" by auto
    then have pos: "0 < length (inFlight st)" by simp
    have "drainPre mx (st\<lparr>executions := (executions st)[rid := (executions st ! rid)\<lparr>row_status := final\<rparr>],
           inFlight := remove1 rid (inFlight st),
           activeExecutions := activeExecutions st - 1\<rparr>)"
      using inv True pos unfolding drainPre_def gateInv_def
      by (simp add: length_remove1) arith
    then show ?thesis using Finish True by (simp add: runExecution_finish_def drainQueue_inv)
  next
    case False
    then show ?thesis using Finish inv by simp
  qed
next
  case (Reject rid)
  assume inv: "gateInv mx st"
  then show ?thesis using Reject unfolding gateInv_def
    by (simp add: length_remove1) arith
qed

lemma gateInv_foldl: "gateInv mx st \<Longrightarrow> gateInv mx (foldl (executorStep mx) st evs)"
  by (induction evs arbitrary: st) (simp_all add: gateInv_step)

lemma gateInv_run: "0 < mx \<Longrightarrow> gateInv mx (executorRun mx evs)"
  by (simp add: executorRun_def gateInv_foldl gateInv_new)


text \<open>
  Claim C2.  In every state the executor reaches, the number of runs in flight does not
  exceed \<^verbatim>\<open>maxConcurrentExecutions\<close> (10 by default); a call of
  \<^verbatim>\<open>executeAutomation\<close> that finds the gate saturated appends its work item to the
  queue and starts nothing; the runs admitted so far followed by the queue are the
  arrivals in arrival order (admission is first in, first out); and after every step,
  completions included, nothing is left waiting while a slot is free.
\<close>

theorem gate_cap_and_fifo_admission:
  assumes mx: "mx = maxConcurrentExecutions cfg" and st: "st = executorRun mx evs"
  shows "length (inFlight st) \<le> mx \<and> activeExecutions st \<le> mx \<and>
         (maxConcurrentExecutions None = 10) \<and>
         admitted st @ executionQueue st = arrived st \<and>
         (executionQueue st = [] \<or> activeExecutions st = mx) \<and>
         (activeExecutions st = mx \<longrightarrow>
            executionQueue (executorStep mx st (Execute item)) = executionQueue st @ [item] \<and>
            inFlight (executorStep mx st (Execute item)) = inFlight st \<and>
            admitted (executorStep mx st (Execute item)) = admitted st \<and>
            executions (executorStep mx st (Execute item)) = executions st)"
proof -
  have "0 < mx" using mx by (simp add: maxConcurrentExecutions_def split: option.splits)
  then have "gateInv mx st" using st by (simp add: gateInv_run)
  then show ?thesis
    unfolding gateInv_def
    by (simp add: executeAutomation_def maxConcurrentExecutions_def)
qed

theorem gate_cap_and_fifo_admission_witness:
  "length (inFlight (executorRun 1 [Execute itemA, Execute itemB])) \<le> 1 \<and>
   executionQueue (executorRun 1 [Execute itemA, Execute itemB]) = [itemB] \<and>
   admitted (executorRun 1 [Execute itemA, Execute itemB]) = [itemA] \<and>
   admitted (executorRun 1 [Execute itemA, Execute itemB, Finish 0 SUCCESS]) = [itemA, itemB] \<and>
   executionQueue (executorRun 1 [Execute itemA, Execute itemB, Finish 0 SUCCESS]) = []"
proof -
  have mx: "(1::nat) = maxConcurrentExecutions (Some 1)"
    by (simp add: maxConcurrentExecutions_def)
  have run1: "executorRun 1 [Execute itemA] =
      \<lparr>activeExecutions = 1, executionQueue = [],
       executions = [\<lparr>row_automationId = ''rule-a'', row_status = RUNNING\<rparr>],
       inFlight = [0], arrived = [itemA], admitted = [itemA]\<rparr>"
    by (simp add: executorRun_def newExecutor_def executeAutomation_def runExecution_start_def
          itemA_def)
  have run2: "executorRun 1 [Execute itemA, Execute itemB] =
      executorStep 1 (executorRun 1 [Execute itemA]) (Execute itemB)"
    by (simp add: executorRun_def)
  have q: "executionQueue (executorRun 1 [Execute itemA, Execute itemB]) = [itemB]"
    and a: "admitted (executorRun 1 [Execute itemA, Execute itemB]) = [itemA]"
    using gate_cap_and_fifo_admission[OF mx refl, of "[Execute itemA]" itemB] run1
    unfolding run2 by simp_all
  have l: "length (inFlight (executorRun 1 [Execute itemA, Execute itemB])) \<le> 1"
    using gate_cap_and_fifo_admission[OF mx refl, of "[Execute itemA, Execute itemB]"] by simp
  have run3: "executorRun 1 [Execute itemA, Execute itemB, Finish 0 SUCCESS] =
      \<lparr>activeExecutions = 1, executionQueue = [],
       executions = [\<lparr>row_automationId = ''rule-a'', row_status = SUCCESS\<rparr>,
                     \<lparr>row_automationId = ''rule-b'', row_status = RUNNING\<rparr>],
       inFlight = [1], arrived = [itemA, itemB], admitted = [itemA, itemB]\<rparr>"
    by (simp add: executorRun_def newExecutor_def executeAutomation_def runExecution_start_def
          runExecution_finish_def drainQueue.simps itemA_def itemB_def)
  show ?thesis using q a l run3 by simp
qed

text \<open>
  Claim C10.  When the rule a trigger event refers to does not exist, or exists and is
  disabled, at the time \<^verbatim>\<open>handleTriggerEvent\<close> looks it up, the event is dropped: the
  executor's state is unchanged (no Execution row is created, nothing is queued or
  started) and the callback's promise resolves without an error.
\<close>

theorem trigger_event_dropped_when_rule_missing_or_disabled:
  assumes "findUnique (automationId event) = Inr None \<or>
           (\<exists>a. findUnique (automationId event) = Inr (Some a) \<and> \<not> enabled a)"
  shows "handleTriggerEvent mx findUnique event st = (Inr (), st)"
  using assms by (auto simp add: handleTriggerEvent_def)

theorem trigger_event_dropped_when_rule_missing_or_disabled_witness:
  "handleTriggerEvent 10 emptyStore (snd itemA) (executorRun 10 [Execute itemB])
     = (Inr (), executorRun 10 [Execute itemB]) \<and>
   executions (snd (handleTriggerEvent 10 emptyStore (snd itemA) (executorRun 10 [Execute itemB])))
     = [\<lparr>row_automationId = ''rule-b'', row_status = RUNNING\<rparr>] \<and>
   handleTriggerEvent 10 (\<lambda>rid. Inr (Some ((fst itemA)\<lparr>enabled := False\<rparr>))) (snd itemA) newExecutor
     = (Inr (), newExecutor)"
proof -
  have 1: "emptyStore (automationId (snd itemA)) = Inr None \<or>
           (\<exists>a. emptyStore (automationId (snd itemA)) = Inr (Some a) \<and> \<not> enabled a)"
    by (simp add: emptyStore_def)
  have 2: "(\<lambda>rid. Inr (Some ((fst itemA)\<lparr>enabled := False\<rparr>))) (automationId (snd itemA)) = Inr None \<or>
           (\<exists>a. (\<lambda>rid. Inr (Some ((fst itemA)\<lparr>enabled := False\<rparr>))) (automationId (snd itemA))
                  = Inr (Some a) \<and> \<not> enabled a)"
    by simp
  have 3: "executions (executorRun 10 [Execute itemB])
            = [\<lparr>row_automationId = ''rule-b'', row_status = RUNNING\<rparr>]"
    by (simp add: executorRun_def newExecutor_def executeAutomation_def runExecution_start_def
          itemB_def)
  show ?thesis
    using trigger_event_dropped_when_rule_missing_or_disabled
            [where findUnique = emptyStore and event = "snd itemA" and mx = 10
               and st = "executorRun 10 [Execute itemB]", OF 1]
          trigger_event_dropped_when_rule_missing_or_disabled
            [where findUnique = "\<lambda>rid. Inr (Some ((fst itemA)\<lparr>enabled := False\<rparr>))"
               and event = "snd itemA" and mx = 10 and st = newExecutor, OF 2]
          3
    by simp
qed

section \<open>Properties of the poll tick\<close>



















text \<open>
  Claim C5, as amended.  On a tick of an \<^verbatim>\<open>oql.match\<close> rule whose query succeeds, with
  \<open>prev\<close> the stored count (absent at the first observation): the tick fires, that is
  hands an event to the handler, exactly when \<open>firesOn\<close> holds: never at the first
  observation for \<^verbatim>\<open>new_results\<close> and \<^verbatim>\<open>count_change\<close>; afterwards for
  \<^verbatim>\<open>new_results\<close> iff \<open>totalCount > prev\<close> and \<open>prev \<ge> 0\<close>, for \<^verbatim>\<open>count_change\<close> iff
  \<open>totalCount \<noteq> prev\<close> and \<open>prev \<ge> 0\<close>, and for \<^verbatim>\<open>any_results\<close> iff \<open>totalCount > 0\<close>.
  When the tick does not fire, or fires and the handler returns, the stored count
  becomes the observed \<^verbatim>\<open>totalCount\<close>; when the handler throws, the stored count is
  left as it was.
\<close>

theorem oql_match_tick_fires_and_stores_count:
  assumes q: "executeOql up query (rule_workspaceId au) w = (Inr result, w1)"
  shows "fst (pollOnce up clock au (OqlMatchTrigger query triggerOn) store w) = Inr () \<and>
         (if firesOn triggerOn (totalCount result) (storedCount store (rule_id au))
          then snd (snd (pollOnce up clock au (OqlMatchTrigger query triggerOn) store w))
                 = snd (handler up (oqlEvent au result) w1) \<and>
               storedCount (fst (snd (pollOnce up clock au (OqlMatchTrigger query triggerOn) store w)))
                  (rule_id au)
                 = (if fst (handler up (oqlEvent au result) w1) = Inr ()
                    then Some (totalCount result)
                    else storedCount store (rule_id au))
          else snd (snd (pollOnce up clock au (OqlMatchTrigger query triggerOn) store w)) = w1 \<and>
               storedCount (fst (snd (pollOnce up clock au (OqlMatchTrigger query triggerOn) store w)))
                  (rule_id au)
                 = Some (totalCount result))"
proof -
  let ?aid = "rule_id au"
  obtain state store0 where ld: "loadTriggerState ?aid (atLoad clock) store = (state, store0)"
    by (cases "loadTriggerState ?aid (atLoad clock) store") auto
  then have s0: "store0 ?aid = Some state"
    by (auto simp add: loadTriggerState_def Let_def split: option.splits)
  have pc: "oqlCount (lastSeenData state) = storedCount store ?aid"
    using ld by (auto simp add: loadTriggerState_def storedCount_def Let_def split: option.splits)
  have sc0: "storedCount store0 ?aid = storedCount store ?aid"
    using s0 pc by (simp add: storedCount_def)
  have fires: "shouldTrigger triggerOn (totalCount result) (prevCountOf (lastSeenData state))
                = firesOn triggerOn (totalCount result) (storedCount store ?aid)"
    unfolding pc[symmetric]
    by (cases "oqlCount (lastSeenData state)")
       (auto simp add: shouldTrigger_def prevCountOf_def firesOn_def)
  have upd: "\<And>sd st. st ?aid \<noteq> None \<Longrightarrow>
      storedCount (st(?aid \<mapsto> (the (st ?aid))\<lparr>lastCheckedAt := atUpdate clock\<rparr>)) ?aid
        = storedCount st ?aid"
    by (auto simp add: storedCount_def)
  show ?thesis
  proof (cases "firesOn triggerOn (totalCount result) (storedCount store ?aid)")
    case False
    then show ?thesis using q ld s0 fires
      by (simp add: pollOnce_def kindSpecificPoll_def pollOqlMatch_def updateLastSeenData_def
            updateLastCheckedAt_def storedCount_def)
  next
    case True
    obtain hres w2 where h: "handler up (oqlEvent au result) w1 = (hres, w2)"
      by (cases "handler up (oqlEvent au result) w1") auto
    show ?thesis
    proof (cases hres)
      case (Inl e)
      then show ?thesis using True q ld s0 fires h pc
        by (simp add: pollOnce_def kindSpecificPoll_def pollOqlMatch_def updateLastSeenData_def
              updateLastCheckedAt_def storedCount_def oqlEvent_def)
    next
      case (Inr u)
      then show ?thesis using True q ld s0 fires h
        by (simp add: pollOnce_def kindSpecificPoll_def pollOqlMatch_def updateLastSeenData_def
              updateLastCheckedAt_def storedCount_def oqlEvent_def)
    qed
  qed
qed

theorem oql_match_tick_fires_and_stores_count_witness:
  "snd (snd (pollOnce (countingUpstream 5) \<lparr>atLoad = 20, atUpdate = 21\<rparr> ruleA
               (OqlMatchTrigger ''q'' ''new_results'') (storeWithCount 7 3) 0)) = 1 \<and>
   storedCount (fst (snd (pollOnce (countingUpstream 5) \<lparr>atLoad = 20, atUpdate = 21\<rparr> ruleA
               (OqlMatchTrigger ''q'' ''new_results'') (storeWithCount 7 3) 0))) ''rule-a''
     = Some 5 \<and>
   snd (snd (pollOnce (countingUpstream 5) \<lparr>atLoad = 20, atUpdate = 21\<rparr> ruleA
               (OqlMatchTrigger ''q'' ''new_results'') Map.empty 0)) = 0 \<and>
   storedCount (fst (snd (pollOnce (countingUpstream 5) \<lparr>atLoad = 20, atUpdate = 21\<rparr> ruleA
               (OqlMatchTrigger ''q'' ''new_results'') Map.empty 0))) ''rule-a''
     = Some 5"
proof -
  have q: "executeOql (countingUpstream 5) ''q'' (rule_workspaceId ruleA) 0
             = (Inr \<lparr>totalCount = 5, rows = []\<rparr>, 0)"
    by (simp add: countingUpstream_def)
  have id: "rule_id ruleA = ''rule-a''" by (simp add: ruleA_def)
  have f1: "firesOn ''new_results'' 5 (storedCount (storeWithCount 7 3) ''rule-a'')"
    by (simp add: firesOn_def storedCount_def storeWithCount_def)
  have f2: "\<not> firesOn ''new_results'' 5 (storedCount Map.empty ''rule-a'')"
    by (simp add: firesOn_def storedCount_def)
  have h: "handler (countingUpstream 5) (oqlEvent ruleA \<lparr>totalCount = 5, rows = []\<rparr>) 0
             = (Inr (), 1)"
    by (simp add: countingUpstream_def)
  note main = oql_match_tick_fires_and_stores_count[OF q]
  show ?thesis
    using main[of "\<lparr>atLoad = 20, atUpdate = 21\<rparr>" "''new_results''" "storeWithCount 7 3"]
          main[of "\<lparr>atLoad = 20, atUpdate = 21\<rparr>" "''new_results''" Map.empty]
          f1 f2 h
    by (simp add: id)
qed

text \<open>
  The claim as written, that after each tick the stored count equals the observed
  \<^verbatim>\<open>totalCount\<close>, fails when the handler throws: with a stored count of 3 and a query
  answering 5 rows, a \<^verbatim>\<open>new_results\<close> tick fires, the handler's exception is caught by
  \<^verbatim>\<open>pollOqlMatch\<close>, and the stored count is still 3.
\<close>

theorem oql_count_not_stored_when_handler_throws:
  "fst (executeOql (throwingUpstream 5) ''q'' (rule_workspaceId ruleA) 0)
     = Inr \<lparr>totalCount = 5, rows = []\<rparr> \<and>
   storedCount (fst (snd (pollOnce (throwingUpstream 5) \<lparr>atLoad = 20, atUpdate = 21\<rparr> ruleA
               (OqlMatchTrigger ''q'' ''new_results'') (storeWithCount 7 3) 0))) ''rule-a''
     = Some 3 \<and>
   storedCount (fst (snd (pollOnce (throwingUpstream 5) \<lparr>atLoad = 20, atUpdate = 21\<rparr> ruleA
               (OqlMatchTrigger ''q'' ''new_results'') (storeWithCount 7 3) 0))) ''rule-a''
     \<noteq> Some 5"
  by (simp add: throwingUpstream_def countingUpstream_def pollOnce_def loadTriggerState_def
        storeWithCount_def ruleA_def kindSpecificPoll_def pollOqlMatch_def shouldTrigger_def
        prevCountOf_def updateLastSeenData_def updateLastCheckedAt_def storedCount_def)

section \<open>Properties of the equality operators\<close>

lemma strictEquals_jsString: "strictEquals a b \<Longrightarrow> jsString rt a = jsString rt b"
  by (induction a b rule: strictEquals.induct) simp_all

text \<open>
  Claim C6, as amended.  For all values \<open>a\<close> and \<open>b\<close>, the operator \<^verbatim>\<open>equals\<close> is true
  exactly when \<open>a\<close> and \<open>b\<close> are both null or undefined, or
  \<^verbatim>\<open>String(a).toLowerCase() === String(b).toLowerCase()\<close> (which strict identity
  \<^verbatim>\<open>a === b\<close> implies); \<^verbatim>\<open>not_equals\<close> is its negation.  JavaScript's loose \<^verbatim>\<open>==\<close>
  is not part of the test.
\<close>

theorem equals_is_caseless_string_equality:
  "compareValue rt ''equals'' a b p f t =
     ((isNullish a \<and> isNullish b) \<or> toLowerCase (jsString rt a) = toLowerCase (jsString rt b)) \<and>
   compareValue rt ''not_equals'' a b p f t =
     (\<not> ((isNullish a \<and> isNullish b) \<or> toLowerCase (jsString rt a) = toLowerCase (jsString rt b)))"
  using strictEquals_jsString[of a b rt]
  by (auto simp add: compareValue_def looseEquals_def)

text \<open>
  The formula of the specification makes \<^verbatim>\<open>equals(0, false)\<close> true, since
  \<^verbatim>\<open>0 == false\<close>; the code answers false, the strings \<^verbatim>\<open>0\<close> and \<^verbatim>\<open>false\<close> being
  different.
\<close>

theorem equals_zero_false_counterexample:
  "specEquals exampleRuntime (JNum 0) (JBool False) \<and>
   \<not> compareValue exampleRuntime ''equals'' (JNum 0) (JBool False) JUndefined JUndefined JUndefined"
  by (simp add: specEquals_def abstractEquals_def isObject_def isNullish_def toPrimitive_def
        compareValue_def looseEquals_def toLowerCase_def lowerChar_def numberToString_def
        intToString_def natToString.simps exampleRuntime_def)

section \<open>Properties of the expression parser\<close>

lemma additive_token:
  "tok_type t = OPERATOR \<Longrightarrow> tok_value t \<in> {''+'', ''-'', ''*'', ''/''} \<Longrightarrow>
   isAdditiveOperator t \<and> \<not> isComparisonOperator t"
  by (auto simp add: isAdditiveOperator_def isComparisonOperator_def)

lemma comparison_token:
  "tok_type t = OPERATOR \<Longrightarrow> tok_value t \<in> {''=='', ''!='', ''>'', ''<'', ''>='', ''<=''} \<Longrightarrow>
   isComparisonOperator t \<and> \<not> isAdditiveOperator t"
  by (auto simp add: isAdditiveOperator_def isComparisonOperator_def)

lemma other_token:
  "tok_type t \<noteq> OPERATOR \<Longrightarrow> \<not> isComparisonOperator t \<and> \<not> isAdditiveOperator t"
  by (auto simp add: isAdditiveOperator_def isComparisonOperator_def)

lemmas parser_simps = parseTokens_def current_def peek_def expect_def parsePath_def
  nodeOf_def argsOf_def mkToken_def eval_nat_numeral additive_token comparison_token other_token

lemma additive_then_comparison:
  assumes "aop \<in> {''+'', ''-'', ''*'', ''/''}"
    and "cop \<in> {''=='', ''!='', ''>'', ''<'', ''>='', ''<=''}"
  shows "parseTokens (operands3 a aop b cop c ps) =
         Inr (BinaryExpression aop (PathExpression [a])
                (BinaryExpression cop (PathExpression [b]) (PathExpression [c])))"
  using assms by (simp add: operands3_def parser_simps)

lemma comparison_then_additive:
  assumes "aop \<in> {''+'', ''-'', ''*'', ''/''}"
    and "cop \<in> {''=='', ''!='', ''>'', ''<'', ''>='', ''<=''}"
  shows "parseTokens (operands3 a cop b aop c ps) =
         Inr (BinaryExpression aop
                (BinaryExpression cop (PathExpression [a]) (PathExpression [b]))
                (PathExpression [c]))"
  using assms by (simp add: operands3_def parser_simps)

lemma additive_left_associative:
  assumes "aop \<in> {''+'', ''-'', ''*'', ''/''}"
    and "aop' \<in> {''+'', ''-'', ''*'', ''/''}"
  shows "parseTokens (operands3 a aop b aop' c ps) =
         Inr (BinaryExpression aop'
                (BinaryExpression aop (PathExpression [a]) (PathExpression [b]))
                (PathExpression [c]))"
  using assms by (simp add: operands3_def parser_simps)

lemma comparison_not_chained:
  assumes "cop \<in> {''=='', ''!='', ''>'', ''<'', ''>='', ''<=''}"
    and "cop' \<in> {''=='', ''!='', ''>'', ''<'', ''>='', ''<=''}"
  shows "parseTokens (operands3 a cop b cop' c ps) =
         Inl (UnexpectedToken (mkToken OPERATOR cop' (ps ! 3)))"
  using assms by (simp add: operands3_def parser_simps)

lemma pipe_lowest:
  assumes "op1 \<in> {''+'', ''-'', ''*'', ''/''} \<union> {''=='', ''!='', ''>'', ''<'', ''>='', ''<=''}"
    and "op2 \<in> {''+'', ''-'', ''*'', ''/''} \<union> {''=='', ''!='', ''>'', ''<'', ''>='', ''<=''}"
  shows "parseTokens (pipeOperands a op1 b c op2 d ps) =
         Inr (PipeExpression
                (BinaryExpression op1 (PathExpression [a]) (PathExpression [b]))
                (BinaryExpression op2 (PathExpression [c]) (PathExpression [d])))"
proof -
  from assms(1) consider "op1 \<in> {''+'', ''-'', ''*'', ''/''}"
    | "op1 \<in> {''=='', ''!='', ''>'', ''<'', ''>='', ''<=''}" by blast
  then show ?thesis
  proof cases
    case 1
    from assms(2) consider "op2 \<in> {''+'', ''-'', ''*'', ''/''}"
      | "op2 \<in> {''=='', ''!='', ''>'', ''<'', ''>='', ''<=''}" by blast
    then show ?thesis using 1 by cases (simp_all add: pipeOperands_def parser_simps)
  next
    case 2
    from assms(2) consider "op2 \<in> {''+'', ''-'', ''*'', ''/''}"
      | "op2 \<in> {''=='', ''!='', ''>'', ''<'', ''>='', ''<=''}" by blast
    then show ?thesis using 2 by cases (simp_all add: pipeOperands_def parser_simps)
  qed
qed

text \<open>
  Claim C9, as amended.  The parser has three levels of binary operators.  The pipe
  \<^verbatim>\<open>|\<close> binds loosest.  The operators \<^verbatim>\<open>+ - * /\<close> share the next level and associate to
  the left.  The comparison operators \<^verbatim>\<open>== != > < >= <=\<close> bind tightest, and at most one
  of them joins two operands.  So for identifiers \<open>a\<close>, \<open>b\<close>, \<open>c\<close>, an operator \<open>aop\<close> of the
  first kind and \<open>cop\<close> of the second, at any token positions: \<open>a aop b cop c\<close> parses as
  \<open>a aop (b cop c)\<close>; \<open>a cop b aop c\<close> as \<open>(a cop b) aop c\<close>; \<open>a aop b aop' c\<close> as
  \<open>(a aop b) aop' c\<close>; \<open>a cop b cop' c\<close> is rejected at the second operator; and
  \<open>a op1 b | c op2 d\<close> is the pipe of \<open>a op1 b\<close> and \<open>c op2 d\<close>.
\<close>

theorem comparison_binds_tighter_than_additive:
  assumes "aop \<in> additiveOperators" and "aop' \<in> additiveOperators"
    and "cop \<in> comparisonOperators" and "cop' \<in> comparisonOperators"
    and "op1 \<in> additiveOperators \<union> comparisonOperators"
    and "op2 \<in> additiveOperators \<union> comparisonOperators"
  shows "parseTokens (operands3 a aop b cop c ps) =
           Inr (BinaryExpression aop (PathExpression [a])
                  (BinaryExpression cop (PathExpression [b]) (PathExpression [c]))) \<and>
         parseTokens (operands3 a cop b aop c ps) =
           Inr (BinaryExpression aop
                  (BinaryExpression cop (PathExpression [a]) (PathExpression [b]))
                  (PathExpression [c])) \<and>
         parseTokens (operands3 a aop b aop' c ps) =
           Inr (BinaryExpression aop'
                  (BinaryExpression aop (PathExpression [a]) (PathExpression [b]))
                  (PathExpression [c])) \<and>
         parseTokens (operands3 a cop b cop' c ps) =
           Inl (UnexpectedToken (mkToken OPERATOR cop' (ps ! 3))) \<and>
         parseTokens (pipeOperands a op1 b c op2 d qs) =
           Inr (PipeExpression
                  (BinaryExpression op1 (PathExpression [a]) (PathExpression [b]))
                  (BinaryExpression op2 (PathExpression [c]) (PathExpression [d])))"
proof -
  note A = assms(1)[unfolded additiveOperators_def]
  note A' = assms(2)[unfolded additiveOperators_def]
  note C = assms(3)[unfolded comparisonOperators_def]
  note C' = assms(4)[unfolded comparisonOperators_def]
  note P = assms(5)[unfolded additiveOperators_def comparisonOperators_def]
  note Q = assms(6)[unfolded additiveOperators_def comparisonOperators_def]
  show ?thesis
    by (intro conjI)
      (rule additive_then_comparison[OF A C] comparison_then_additive[OF A C]
        additive_left_associative[OF A A'] comparison_not_chained[OF C C']
        pipe_lowest[OF P Q])+
qed

theorem comparison_binds_tighter_than_additive_witness:
  "''+'' \<in> additiveOperators \<and> ''*'' \<in> additiveOperators \<and>
   ''=='' \<in> comparisonOperators \<and> ''<'' \<in> comparisonOperators \<and>
   parseTokens (operands3 ''a'' ''+'' ''b'' ''=='' ''c'' [0, 2, 4, 6, 9, 10]) =
     Inr (BinaryExpression ''+'' (PathExpression [''a''])
            (BinaryExpression ''=='' (PathExpression [''b'']) (PathExpression [''c'']))) \<and>
   parseTokens (operands3 ''a'' ''=='' ''b'' ''+'' ''c'' [0, 2, 4, 6, 9, 10]) =
     Inr (BinaryExpression ''+''
            (BinaryExpression ''=='' (PathExpression [''a'']) (PathExpression [''b'']))
            (PathExpression [''c''])) \<and>
   parseTokens (operands3 ''a'' ''+'' ''b'' ''*'' ''c'' [0, 2, 4, 6, 9, 10]) =
     Inr (BinaryExpression ''*''
            (BinaryExpression ''+'' (PathExpression [''a'']) (PathExpression [''b'']))
            (PathExpression [''c''])) \<and>
   parseTokens (operands3 ''a'' ''=='' ''b'' ''<'' ''c'' [0, 2, 4, 6, 9, 10]) =
     Inl (UnexpectedToken (mkToken OPERATOR ''<'' 6)) \<and>
   parseTokens (pipeOperands ''a'' ''+'' ''b'' ''c'' ''=='' ''d'' [0, 2, 4, 6, 8, 10, 13, 14]) =
     Inr (PipeExpression
            (BinaryExpression ''+'' (PathExpression [''a'']) (PathExpression [''b'']))
            (BinaryExpression ''=='' (PathExpression [''c'']) (PathExpression [''d''])))"
  using comparison_binds_tighter_than_additive[of "''+''" "''*''" "''==''" "''<''" "''+''" "''==''"
          "''a''" "''b''" "''c''" "[0, 2, 4, 6, 9, 10]" "''d''" "[0, 2, 4, 6, 8, 10, 13, 14]"]
  by (simp add: additiveOperators_def comparisonOperators_def)

text \<open>
  The specification's example: the text \<^verbatim>\<open>a + b == c\<close> parses as \<^verbatim>\<open>a + (b == c)\<close>, and
  not as \<^verbatim>\<open>(a + b) == c\<close>.
\<close>

theorem sum_compared_parses_as_sum_of_comparison:
  "parse ''a + b == c'' =
     Inr (BinaryExpression ''+'' (PathExpression [''a''])
            (BinaryExpression ''=='' (PathExpression [''b'']) (PathExpression [''c'']))) \<and>
   parse ''a + b == c'' \<noteq>
     Inr (BinaryExpression ''==''
            (BinaryExpression ''+'' (PathExpression [''a'']) (PathExpression [''b'']))
            (PathExpression [''c'']))"
  by code_simp

section \<open>Properties of the template resolver\<close>

lemma parse_one_by_zero:
  "parse ''1 / 0'' =
     Inr (BinaryExpression ''/'' (LiteralExpression (JNum 1)) (LiteralExpression (JNum 0)))"
  by code_simp

lemma legacy_one_by_zero:
  "resolveExpressionLegacy sv ''1 / 0'' ctx = Inr (JStr ''{{1 / 0}}'')"
  by (simp add: resolveExpressionLegacy_def splitOn_def)

lemma matches_one_by_zero: "matchAllTemplates 0 ''{{1 / 0}}'' = [(''{{1 / 0}}'', ''1 / 0'')]"
  by code_simp

lemma trim_one_by_zero: "trim ''1 / 0'' = ''1 / 0''"
  by code_simp

lemma block_one_by_zero: "blockTagTest ''{{1 / 0}}'' = False"
  by code_simp

lemma replace_one_by_zero: "replaceFirst ''{{1 / 0}}'' ''{{1 / 0}}'' ''{{1 / 0}}'' = ''{{1 / 0}}''"
  by code_simp

text \<open>
  Claim C7, the behaviour of the code.  In every context the expression \<^verbatim>\<open>1 / 0\<close>
  parses, and its evaluation throws \<^verbatim>\<open>Division by zero\<close>; \<^verbatim>\<open>resolveExpressionSmart\<close>
  catches the exception and answers with the legacy resolver, for which \<^verbatim>\<open>1 / 0\<close> is an
  unknown root; so \<^verbatim>\<open>resolveString\<close> returns the template \<^verbatim>\<open>{{1 / 0}}\<close> unchanged and
  throws nothing.
\<close>

theorem division_by_zero_is_swallowed:
  "parse ''1 / 0'' =
     Inr (BinaryExpression ''/'' (LiteralExpression (JNum 1)) (LiteralExpression (JNum 0))) \<and>
   evaluateNode sv ctx
     (BinaryExpression ''/'' (LiteralExpression (JNum 1)) (LiteralExpression (JNum 0))) =
     Inl ''Division by zero'' \<and>
   resolveExpressionSmart sv ''1 / 0'' ctx = Inr (JStr ''{{1 / 0}}'') \<and>
   resolveString sv ''{{1 / 0}}'' ctx = Inr ''{{1 / 0}}''"
proof -
  have ev: "evaluateNode sv ctx
     (BinaryExpression ''/'' (LiteralExpression (JNum 1)) (LiteralExpression (JNum 0))) =
     Inl ''Division by zero''"
    by (simp add: evaluateBinary_def)
  have smart: "resolveExpressionSmart sv ''1 / 0'' ctx = Inr (JStr ''{{1 / 0}}'')"
    by (simp add: resolveExpressionSmart_def parse_one_by_zero legacy_one_by_zero evaluateBinary_def)
  have "resolveString sv ''{{1 / 0}}'' ctx = Inr ''{{1 / 0}}''"
    by (simp add: resolveString_def block_one_by_zero matches_one_by_zero trim_one_by_zero smart
          stringify_def replace_one_by_zero del: matchAllTemplates.simps blockTagTest.simps)
  with ev smart parse_one_by_zero show ?thesis by simp
qed

lemma plainKeyedE:
  assumes "plainKeyed item"
  obtains fs where "item = JObj fs" and "lookupField ''key'' fs = JStr (keyOf item)"
    and "CHR ''$'' \<notin> set (keyOf item)" and "CHR ''{'' \<notin> set (keyOf item)"
  using assms
  by (auto simp add: plainKeyed_def keyOf_def getProperty_def split: jsValue.splits)

lemma getSubstitution_plain: "CHR ''$'' \<notin> set r \<Longrightarrow> getSubstitution m b a r = r"
  by (induction m b a r rule: getSubstitution.induct) auto

lemma startsWith_refl: "startsWith s s"
  by (induction s) auto

lemma indexOf_self: "indexOf s s = Some 0"
  by (cases s) (simp_all add: startsWith_refl)

lemma replaceFirst_self: "CHR ''$'' \<notin> set r \<Longrightarrow> replaceFirst s s r = r"
  by (simp add: replaceFirst_def indexOf_self getSubstitution_plain)

lemma lookupField_setField:
  "lookupField k (setField k' x fs) = (if k = k' then x else lookupField k fs)"
  by (induction fs) auto

lemma matchAllTemplates_plain: "CHR ''{'' \<notin> set s \<Longrightarrow> matchAllTemplates 0 s = []"
  by (induction s) (auto simp add: templateAt_def)

lemma openTags_plain: "CHR ''{'' \<notin> set s \<Longrightarrow> openTags tag 0 i s = []"
  by (induction s arbitrary: i) (auto simp add: openTagAt_def)

lemma lastInnermost_plain: "CHR ''{'' \<notin> set s \<Longrightarrow> lastInnermost tag closeTag nested s = None"
  by (simp add: lastInnermost_def openTags_plain List.map_filter_simps)

lemma processBlocksLoop_plain:
  "CHR ''{'' \<notin> set s \<Longrightarrow> processBlocksLoop k sv s ctx = Inr s"
  by (cases k) (simp_all add: processInnermostEach_def processInnermostIf_def lastInnermost_plain)

lemma joinWith_empty: "joinWith [] xs = concat xs"
  by (induction "[] :: string" xs rule: joinWith.induct) auto

lemma parse_item_key: "parse ''currentItem.key'' = Inr (PathExpression [''currentItem'', ''key''])"
  by code_simp

lemma parse_items: "parse ''variables.items'' = Inr (PathExpression [''variables'', ''items''])"
  by code_simp

lemma parse_chain:
  "parse ''variables.items.map(\"key\").join(\"\")'' =
     Inr (ChainExpression (PathExpression [''variables'', ''items''])
            [FunctionCallOp ''map'' [LiteralExpression (JStr ''key'')],
             FunctionCallOp ''join'' [LiteralExpression (JStr [])]])"
  by code_simp

lemma arrayMatch_key: "arrayMatch ''key'' = None" by code_simp
lemma arrayMatch_items: "arrayMatch ''items'' = None" by code_simp

lemma smart_item_key:
  assumes "plainKeyed item"
  shows "resolveExpressionSmart sv ''currentItem.key'' (childContext ctx item i n) =
         Inr (JStr (keyOf item))"
proof -
  from assms obtain fs where it: "item = JObj fs" and k: "lookupField ''key'' fs = JStr (keyOf item)"
    by (rule plainKeyedE)
  show ?thesis
    by (simp add: resolveExpressionSmart_def parse_item_key resolveExpressionLegacy_def splitOn_def
          resolveCurrentItemPath_def childContext_def lookupField_setField it navigatePath_def
          isNullish_def arrayMatch_key getProperty_def k[unfolded it])
qed

lemma smart_items:
  assumes "lookupField ''variables'' ctx = JObj vars" and "lookupField ''items'' vars = JArr items"
  shows "resolveExpressionSmart sv ''variables.items'' ctx = Inr (JArr items)"
  by (simp add: resolveExpressionSmart_def parse_items resolveExpressionLegacy_def splitOn_def
        navigatePath_def isNullish_def arrayMatch_items getProperty_def assms)


lemma expandBody_item_key: "expandBody ''{{currentItem.key}}'' i n = ''{{currentItem.key}}''"
  by (simp add: expandBody_def replaceAll_def)

lemma itemExprs_item_key:
  "itemExprs 0 ''{{currentItem.key}}'' = [(''{{currentItem.key}}'', ''currentItem.key'')]"
  by code_simp

lemma trim_item_key: "trim ''currentItem.key'' = ''currentItem.key''"
  by code_simp

lemma expandItem_item_key:
  assumes "plainKeyed item"
  shows "expandItem sv ctx ''{{currentItem.key}}'' n i item = Inr (keyOf item)"
proof -
  from assms have "CHR ''$'' \<notin> set (keyOf item)" by (rule plainKeyedE)
  then show ?thesis
    by (simp add: expandItem_def expandBody_item_key itemExprs_item_key trim_item_key
          smart_item_key[OF assms] stringify_def replaceFirst_self del: itemExprs.simps)
qed

lemma expandItems_item_key:
  "list_all plainKeyed items \<Longrightarrow>
   expandItems sv ctx ''{{currentItem.key}}'' n i items = Inr (map keyOf items)"
  by (induction items arbitrary: i) (simp_all add: expandItem_item_key)

lemma concat_keys_plain:
  "list_all plainKeyed items \<Longrightarrow>
   CHR ''$'' \<notin> set (concat (map keyOf items)) \<and> CHR ''{'' \<notin> set (concat (map keyOf items))"
  by (induction items) (auto elim: plainKeyedE)

lemma innermost_each:
  "lastInnermost ''each'' ''{{/each}}'' ''{{#each''
     ''{{#each variables.items}}{{currentItem.key}}{{/each}}'' =
   Some \<lparr>openStart = 0, openEnd = 25, expression = ''variables.items'', closeIndex = 44\<rparr>"
  by code_simp

lemma body_each:
  "substring ''{{#each variables.items}}{{currentItem.key}}{{/each}}'' 25 44 = ''{{currentItem.key}}''"
  by code_simp

lemma each_block:
  assumes "lookupField ''variables'' ctx = JObj vars" and "lookupField ''items'' vars = JArr items"
    and "list_all plainKeyed items"
  shows "processInnermostEach sv ''{{#each variables.items}}{{currentItem.key}}{{/each}}'' ctx =
         Inr (Some (concat (map keyOf items)))"
  by (simp add: processInnermostEach_def innermost_each smart_items[OF assms(1,2)] body_each
        expandItems_item_key[OF assms(3)])

lemma blockTag_each:
  "blockTagTest ''{{#each variables.items}}{{currentItem.key}}{{/each}}''"
  by code_simp

lemma includes_each:
  "includesStr ''{{#each variables.items}}{{currentItem.key}}{{/each}}'' ''{{''"
  by code_simp

lemma each_template:
  assumes "lookupField ''variables'' ctx = JObj vars" and "lookupField ''items'' vars = JArr items"
    and "list_all plainKeyed items"
  shows "resolveString sv ''{{#each variables.items}}{{currentItem.key}}{{/each}}'' ctx =
         Inr (concat (map keyOf items))"
proof -
  have plain: "CHR ''{'' \<notin> set (concat (map keyOf items))"
    using concat_keys_plain[OF assms(3)] by simp
  have "processBlocks sv ''{{#each variables.items}}{{currentItem.key}}{{/each}}'' ctx =
        Inr (concat (map keyOf items))"
  proof -
    have "(100 :: nat) = Suc 99" by simp
    then show ?thesis
      unfolding processBlocks_def MAX_ITERATIONS_def
      by (simp only: processBlocksLoop.simps each_block[OF assms] sum.case option.case
            processBlocksLoop_plain[OF plain])
  qed
  then show ?thesis
    by (simp add: resolveString_def blockTag_each includes_each matchAllTemplates_plain[OF plain]
          del: blockTagTest.simps includesStr.simps)
qed


lemma map_key:
  assumes "list_all plainKeyed items"
  shows "execute (mapFunction rt) (JArr items) [JStr ''key''] =
         Inr (JArr (map (\<lambda>item. JStr (keyOf item)) items))"
proof -
  have eq: "map (\<lambda>item. if isNullish item then JNull
                     else mapNavigate (splitOn CHR ''.'' ''key'') item) items =
        map (\<lambda>item. JStr (keyOf item)) items"
  proof (rule map_cong[OF refl])
    fix item assume "item \<in> set items"
    with assms have "plainKeyed item" by (simp add: list_all_iff)
    then obtain fs where it: "item = JObj fs" and k: "lookupField ''key'' fs = JStr (keyOf item)"
      by (rule plainKeyedE)
    show "(if isNullish item then JNull else mapNavigate (splitOn CHR ''.'' ''key'') item) =
          JStr (keyOf item)"
      by (simp add: it isNullish_def splitOn_def getProperty_def k[unfolded it])
  qed
  show ?thesis
    by (simp add: mapFunction_def arrayAt_def eq del: map_eq_conv cong del: if_weak_cong)
qed

lemma args_map: "minArgs (mapFunction rt) = 1 \<and> maxArgs (mapFunction rt) = 1"
  by (simp add: mapFunction_def)

lemma args_join: "minArgs (joinFunction rt) = 0 \<and> maxArgs (joinFunction rt) = 1"
  by (simp add: joinFunction_def)

lemma join_keys:
  "execute (joinFunction rt) (JArr (map (\<lambda>item. JStr (keyOf item)) items)) [JStr []] =
   Inr (JStr (concat (map keyOf items)))"
  by (simp add: joinFunction_def arrayAt_def isNullish_def joinWith_empty comp_def)

lemma smart_chain:
  assumes "lookupField ''variables'' ctx = JObj vars" and "lookupField ''items'' vars = JArr items"
    and "list_all plainKeyed items"
  shows "resolveExpressionSmart sv ''variables.items.map(\"key\").join(\"\")'' ctx =
         Inr (JStr (concat (map keyOf items)))"
proof -
  have base: "evaluateNode sv ctx (PathExpression [''variables'', ''items'']) = Inr (JArr items)"
    by (simp add: resolveExpressionLegacy_def splitOn_def navigatePath_def isNullish_def
          arrayMatch_items getProperty_def assms(1,2))
  show ?thesis
    by (simp add: resolveExpressionSmart_def parse_chain base functionCallOp_def registryGet_def
          map_key[OF assms(3)] join_keys args_map args_join
          del: evaluateNode.simps(1))
  qed

lemma matches_chain:
  "matchAllTemplates 0 ''{{variables.items.map(\"key\").join(\"\")}}'' =
     [(''{{variables.items.map(\"key\").join(\"\")}}'', ''variables.items.map(\"key\").join(\"\")'')]"
  by code_simp

lemma blockTag_chain: "blockTagTest ''{{variables.items.map(\"key\").join(\"\")}}'' = False"
  by code_simp

lemma includes_chain: "includesStr ''{{variables.items.map(\"key\").join(\"\")}}'' ''{{''"
  by code_simp

lemma trim_chain:
  "trim ''variables.items.map(\"key\").join(\"\")'' = ''variables.items.map(\"key\").join(\"\")''"
  by code_simp

lemma chain_template:
  assumes "lookupField ''variables'' ctx = JObj vars" and "lookupField ''items'' vars = JArr items"
    and "list_all plainKeyed items"
  shows "resolveString sv ''{{variables.items.map(\"key\").join(\"\")}}'' ctx =
         Inr (concat (map keyOf items))"
proof -
  have plain: "CHR ''$'' \<notin> set (concat (map keyOf items))"
    using concat_keys_plain[OF assms(3)] by simp
  show ?thesis
    by (simp add: resolveString_def blockTag_chain includes_chain matches_chain trim_chain
          smart_chain[OF assms] stringify_def replaceFirst_self[OF plain]
          del: blockTagTest.simps includesStr.simps matchAllTemplates.simps)
qed

text \<open>
  Claim C8, as amended.  Let \<^verbatim>\<open>variables.items\<close> be an array of objects whose field
  \<^verbatim>\<open>key\<close> is a string without a dollar sign and without an opening brace.  Then resolving
  the template \<^verbatim>\<open>{{#each variables.items}}{{currentItem.key}}{{/each}}\<close> and resolving the
  template of the chained expression \<^verbatim>\<open>variables.items.map("key").join("")\<close> produce the
  same string, the keys one after the other.
\<close>

theorem each_block_equals_map_join_chain:
  assumes "lookupField ''variables'' ctx = JObj vars"
    and "lookupField ''items'' vars = JArr items"
    and "list_all plainKeyed items"
  shows "resolveString sv ''{{#each variables.items}}{{currentItem.key}}{{/each}}'' ctx =
           resolveString sv ''{{variables.items.map(\"key\").join(\"\")}}'' ctx \<and>
         resolveString sv ''{{variables.items.map(\"key\").join(\"\")}}'' ctx =
           Inr (concat (map keyOf items))"
  using each_template[OF assms] chain_template[OF assms] by simp

theorem each_block_equals_map_join_chain_witness:
  "lookupField ''variables'' exampleContext = JObj [(''items'', JArr exampleItems)] \<and>
   lookupField ''items'' [(''items'', JArr exampleItems)] = JArr exampleItems \<and>
   list_all plainKeyed exampleItems \<and>
   resolveString exampleResolver ''{{#each variables.items}}{{currentItem.key}}{{/each}}''
     exampleContext =
     resolveString exampleResolver ''{{variables.items.map(\"key\").join(\"\")}}'' exampleContext \<and>
   resolveString exampleResolver ''{{variables.items.map(\"key\").join(\"\")}}'' exampleContext =
     Inr ''ab''"
  using each_block_equals_map_join_chain[of exampleContext "[(''items'', JArr exampleItems)]"
          exampleItems exampleResolver]
  by (simp add: exampleContext_def exampleItems_def plainKeyed_def keyOf_def getProperty_def)

text \<open>
  The expression of the specification, with pipes: \<^verbatim>\<open>variables.items | map("key") |
  join("")\<close> does not parse, the second pipe being unexpected; the legacy resolver reads
  it as the path \<^verbatim>\<open>variables\<close>, \<^verbatim>\<open>items | map("key") | join("")\<close>, which is undefined.  On
  the two elements with the keys \<^verbatim>\<open>a\<close> and \<^verbatim>\<open>b\<close> the block produces \<^verbatim>\<open>ab\<close> and the
  expression the empty string.
\<close>

theorem each_block_differs_from_piped_expression:
  "resolveString exampleResolver ''{{#each variables.items}}{{currentItem.key}}{{/each}}''
     exampleContext = Inr ''ab'' \<and>
   parse ''variables.items | map(\"key\") | join(\"\")'' =
     Inl (UnexpectedToken \<lparr>tok_type = PIPE, tok_value = ''|'', tok_position = 29\<rparr>) \<and>
   resolveExpressionSmart exampleResolver ''variables.items | map(\"key\") | join(\"\")''
     exampleContext = Inr JUndefined \<and>
   resolveString exampleResolver ''{{variables.items | map(\"key\") | join(\"\")}}''
     exampleContext = Inr []"
  by code_simp

end
